theory Spec2Isabelle
  imports Main
begin

section \<open>JavaScript values of the Webex extension\<close>

text \<open>
  Strings are lists of code units below 256 (HOL's \<open>char\<close>); code units above that
  are outside the model. Optional properties (\<open>field?: T\<close>, or a property that may be
  \<open>undefined\<close>) are \<open>'a option\<close>. Time stamps are the millisecond numbers that
  \<open>new Date(s).getTime()\<close> gives for the ISO string \<open>s\<close> of the REST API; a string
  that does not parse (\<open>NaN\<close>) is outside the model.
\<close>

text \<open>
  An \<open>Error\<close> object: its name, its message, its \<open>stack\<close> property, and the text
  \<open>JSON.stringify(error, null, 2)\<close> gives for it.
\<close>

record js_error =
  err_name :: string
  err_message :: string
  err_stack :: "string option"
  err_json :: string

text \<open>\<open>String(error)\<close> of an \<open>Error\<close> object (\<open>Error.prototype.toString\<close>).\<close>

definition errorToString :: "js_error \<Rightarrow> string" where
  "errorToString e =
     (if err_name e = [] then err_message e
      else if err_message e = [] then err_name e
      else err_name e @ '': '' @ err_message e)"

text \<open>The expression \<open>error?.message || String(error)\<close> of every catch block.\<close>

definition errorText :: "js_error \<Rightarrow> string" where
  "errorText e = (if err_message e \<noteq> [] then err_message e else errorToString e)"

text \<open>
  White space and line terminators of ECMAScript among the code units below 256: what
  \<open>String.prototype.trim\<close> removes and what \<open>\s\<close> matches.
\<close>

definition isWhiteSpace :: "char \<Rightarrow> bool" where
  "isWhiteSpace c =
     (c = CHR 0x09 \<or> c = CHR 0x0A \<or> c = CHR 0x0B \<or> c = CHR 0x0C \<or> c = CHR 0x0D \<or>
      c = CHR 0x20 \<or> c = CHR 0xA0)"

definition trim :: "string \<Rightarrow> string" where
  "trim s = rev (dropWhile isWhiteSpace (rev (dropWhile isWhiteSpace s)))"

text \<open>\<open>s?.trim()\<close> on an optional string.\<close>

definition trimOpt :: "string option \<Rightarrow> string option" where
  "trimOpt s = map_option trim s"

text \<open>
  Truthiness of an optional string: \<open>undefined\<close> and the empty string are falsy.
  \<open>a || b\<close> is \<open>a\<close> when \<open>a\<close> is truthy and \<open>b\<close> otherwise.
\<close>

definition truthy :: "string option \<Rightarrow> bool" where
  "truthy s = (case s of None \<Rightarrow> False | Some v \<Rightarrow> v \<noteq> [])"

definition orElse :: "string option \<Rightarrow> string option \<Rightarrow> string option" where
  "orElse a b = (if truthy a then a else b)"

definition orString :: "string option \<Rightarrow> string \<Rightarrow> string" where
  "orString a d = (case a of None \<Rightarrow> d | Some v \<Rightarrow> if v = [] then d else v)"

text \<open>\<open>xs || []\<close> on an optional array: every array is truthy.\<close>

definition orEmpty :: "'a list option \<Rightarrow> 'a list" where
  "orEmpty xs = (case xs of None \<Rightarrow> [] | Some v \<Rightarrow> v)"

text \<open>\<open>s.startsWith(p)\<close> and \<open>s.includes(c)\<close> for a one-character \<open>c\<close>.\<close>

definition startsWith :: "string \<Rightarrow> string \<Rightarrow> bool" where
  "startsWith s p = (take (length p) s = p)"

definition includesChar :: "string \<Rightarrow> char \<Rightarrow> bool" where
  "includesChar s c = (c \<in> set s)"

section \<open>inbound.ts\<close>

record WebexEventData =
  data_id :: string
  data_roomId :: "string option"
  data_roomType :: "string option"
  data_personId :: "string option"
  data_personEmail :: "string option"
  data_mentionedPeople :: "string list option"
  data_created :: "int option"

record WebexWebhookEvent =
  ev_resource :: string
  ev_event :: string
  ev_data :: WebexEventData

text \<open>The message of the REST API (\<open>WebexMessage\<close> of api.ts).\<close>

record WebexMessage =
  msg_id :: string
  msg_roomId :: string
  msg_roomType :: string
  msg_text :: "string option"
  msg_markdown :: "string option"
  msg_files :: "string list option"
  msg_personId :: string
  msg_personEmail :: string
  msg_created :: int
  msg_mentionedPeople :: "string list option"

datatype roomType = Direct | Group

record ParsedWebexMessage =
  messageId :: string
  roomId :: "string option"
  roomType :: "roomType option"
  personId :: string
  personEmail :: string
  text' :: "string option"
  markdown :: "string option"
  files :: "string list option"
  mentionedPeople :: "string list option"
  created :: int
  isBotMentioned :: bool

definition isWebexBotMessage :: "WebexWebhookEvent \<Rightarrow> string \<Rightarrow> bool" where
  "isWebexBotMessage event botEmail = (data_personEmail (ev_data event) = Some botEmail)"

definition wasWebexBotMentioned :: "WebexWebhookEvent \<Rightarrow> string \<Rightarrow> bool" where
  "wasWebexBotMentioned event botId =
     (let mentioned = orEmpty (data_mentionedPeople (ev_data event))
      in botId \<in> set mentioned)"

text \<open>
  \<open>fullMessage\<close> has type \<open>any\<close> and is read through \<open>?.\<close>: \<open>None\<close> is
  \<open>null\<close> or \<open>undefined\<close>. \<open>now\<close> is the value of \<open>Date.now()\<close>.
\<close>

definition parseWebexWebhookEvent ::
  "int \<Rightarrow> WebexWebhookEvent \<Rightarrow> WebexMessage option \<Rightarrow> string \<Rightarrow> ParsedWebexMessage" where
  "parseWebexWebhookEvent now event fullMessage botId =
     (let mentioned = wasWebexBotMentioned event botId; d = ev_data event
      in \<lparr> messageId = data_id d,
           roomId = data_roomId d,
           roomType = Some (if data_roomType d = Some ''direct'' then Direct else Group),
           personId = orString (data_personId d) [],
           personEmail = orString (data_personEmail d) [],
           text' = (case fullMessage of None \<Rightarrow> None | Some m \<Rightarrow> msg_text m),
           markdown = (case fullMessage of None \<Rightarrow> None | Some m \<Rightarrow> msg_markdown m),
           files = Some (orEmpty (case fullMessage of None \<Rightarrow> None | Some m \<Rightarrow> msg_files m)),
           mentionedPeople = Some (orEmpty (data_mentionedPeople d)),
           created = (case data_created d of None \<Rightarrow> now | Some t \<Rightarrow> t),
           isBotMentioned = mentioned \<rparr>)"

definition shouldProcessWebexMessage :: "ParsedWebexMessage \<Rightarrow> bool \<Rightarrow> bool" where
  "shouldProcessWebexMessage parsed requireMentionInGroups =
     (if roomType parsed = Some Direct then True
      else if requireMentionInGroups then isBotMentioned parsed
      else True)"


text \<open>
  \<open>stripWebexBotMention\<close> builds \<open>new RegExp(`^@${botName}\\s*`, "i")\<close> from the
  bot's display name without escaping it. The pattern language is modelled for the names
  whose characters are pattern characters or the wild card \<open>.\<close>; a name with any other
  syntax character of the RegExp grammar (a group, a quantifier, a class, an escape, or
  a pattern that does not compile) gives \<open>None\<close>: its meaning is not modelled.
\<close>

definition isSyntaxCharacter :: "char \<Rightarrow> bool" where
  "isSyntaxCharacter c = (c \<in> set ''^$.*+?()[]{}|'' \<or> c = CHR 0x5C)"

definition isLineTerminator :: "char \<Rightarrow> bool" where
  "isLineTerminator c = (c = CHR 0x0A \<or> c = CHR 0x0D)"

text \<open>
  \<open>Canonicalize\<close> of the RegExp semantics under the \<open>i\<close> flag (no \<open>u\<close> flag): the
  upper-case code unit, on the code units below 256 whose upper case is below 256.
\<close>

definition canonicalize :: "char \<Rightarrow> char" where
  "canonicalize c =
     (let n = (of_char c :: nat)
      in if (97 \<le> n \<and> n \<le> 122) \<or> (224 \<le> n \<and> n \<le> 254 \<and> n \<noteq> 247)
         then char_of (n - 32) else c)"

datatype atom = Literal char | AnyChar

fun nameAtoms :: "string \<Rightarrow> atom list option" where
  "nameAtoms [] = Some []"
| "nameAtoms (c # cs) =
     (if c = CHR ''.'' then map_option (Cons AnyChar) (nameAtoms cs)
      else if isSyntaxCharacter c then None
      else map_option (Cons (Literal c)) (nameAtoms cs))"

text \<open>The atoms of \<open>^@${botName}\<close>; the trailing \<open>\s*\<close> is in \<open>replaceMention\<close>.\<close>

definition mentionPattern :: "string \<Rightarrow> atom list option" where
  "mentionPattern botName = map_option (Cons (Literal CHR ''@'')) (nameAtoms botName)"

text \<open>Matching the atoms at the start of the input: the rest of the input on success.\<close>

fun matchAtoms :: "atom list \<Rightarrow> string \<Rightarrow> string option" where
  "matchAtoms [] s = Some s"
| "matchAtoms (a # as) [] = None"
| "matchAtoms (Literal c # as) (x # xs) =
     (if canonicalize c = canonicalize x then matchAtoms as xs else None)"
| "matchAtoms (AnyChar # as) (x # xs) =
     (if isLineTerminator x then None else matchAtoms as xs)"

text \<open>\<open>text.replace(pattern, "")\<close>: the match at index 0 and the white space after it go.\<close>

definition replaceMention :: "atom list \<Rightarrow> string \<Rightarrow> string" where
  "replaceMention pattern s =
     (case matchAtoms pattern s of None \<Rightarrow> s | Some rest \<Rightarrow> dropWhile isWhiteSpace rest)"

definition stripWebexBotMention :: "string \<Rightarrow> string \<Rightarrow> string option" where
  "stripWebexBotMention s botName =
     map_option (\<lambda>pattern. trim (replaceMention pattern s)) (mentionPattern botName)"

text \<open>
  The text both ingestion paths of monitor.ts hand to the dispatcher:
  \<open>let text = parsed.text || parsed.markdown || "";
    if (parsed.isBotMentioned) text = stripWebexBotMention(text, botName);\<close>
\<close>

definition cleanText :: "ParsedWebexMessage \<Rightarrow> string \<Rightarrow> string option" where
  "cleanText parsed botName =
     (let t = orString (orElse (text' parsed) (markdown parsed)) []
      in if isBotMentioned parsed then stripWebexBotMention t botName else Some t)"

section \<open>token.ts and probe.ts\<close>

text \<open>The \<open>channels.webex\<close> section of the configuration.\<close>

record WebexConfig =
  enabled :: bool
  mode :: "string option"
  botToken :: "string option"
  groupPolicy :: "string option"
  webhookPort :: "nat option"
  webhookPath :: "string option"
  webhookUrl :: "string option"
  intervalSeconds :: "nat option"

record WebexCredentials =
  cred_botToken :: string

text \<open>\<open>env\<close> is \<open>process.env.WEBEX_BOT_TOKEN\<close>; \<open>cfg\<close> is \<open>cfg?.channels?.webex\<close>.\<close>

definition resolveWebexCredentials ::
  "string option \<Rightarrow> WebexConfig option \<Rightarrow> WebexCredentials option" where
  "resolveWebexCredentials env cfg =
     (let envToken = trimOpt env;
          configToken = trimOpt (case cfg of None \<Rightarrow> None | Some c \<Rightarrow> botToken c)
      in if truthy envToken then map_option (\<lambda>t. \<lparr> cred_botToken = t \<rparr>) envToken
         else if truthy configToken then map_option (\<lambda>t. \<lparr> cred_botToken = t \<rparr>) configToken
         else None)"

record WebexPerson =
  person_id :: string
  person_displayName :: string
  person_emails :: "string list option"

record BotInfo =
  bot_id :: string
  bot_displayName :: string
  bot_emails :: "string list"

record WebexProbeResult =
  probe_ok :: bool
  probe_authenticated :: "bool option"
  probe_botInfo :: "BotInfo option"
  probe_error :: "string option"

text \<open>\<open>const token = botToken || envToken\<close> of \<open>probeWebex\<close>.\<close>

definition probeToken :: "WebexConfig option \<Rightarrow> string option \<Rightarrow> string option" where
  "probeToken webexConfig env =
     (let configToken = trimOpt (case webexConfig of None \<Rightarrow> None | Some c \<Rightarrow> botToken c);
          envToken = trimOpt env
      in orElse configToken envToken)"

text \<open>\<open>getMe t\<close> is the answer of \<open>GET /people/me\<close> to a client built with token \<open>t\<close>.\<close>

definition probeWebex ::
  "WebexConfig option \<Rightarrow> string option \<Rightarrow> (string \<Rightarrow> js_error + WebexPerson) \<Rightarrow> WebexProbeResult" where
  "probeWebex webexConfig env getMe =
     (let token = probeToken webexConfig env;
          noToken = \<lparr> probe_ok = False, probe_authenticated = Some False, probe_botInfo = None,
                      probe_error = Some ''No bot token configured'' \<rparr>
      in case token of
           None \<Rightarrow> noToken
         | Some t \<Rightarrow>
             if t = [] then noToken
             else (case getMe t of
                     Inl e \<Rightarrow>
                       \<lparr> probe_ok = False, probe_authenticated = Some False, probe_botInfo = None,
                         probe_error = Some (''Probe failed: '' @ errorText e) \<rparr>
                   | Inr person \<Rightarrow>
                       \<lparr> probe_ok = True, probe_authenticated = Some True,
                         probe_botInfo = Some \<lparr> bot_id = person_id person,
                                                 bot_displayName = person_displayName person,
                                                 bot_emails = orEmpty (person_emails person) \<rparr>,
                         probe_error = None \<rparr>))"

section \<open>send.ts\<close>

text \<open>The parameter of \<open>WebexClient.createMessage\<close> (api.ts).\<close>

record MessagePayload =
  pl_roomId :: "string option"
  pl_toPersonId :: "string option"
  pl_toPersonEmail :: "string option"
  pl_text :: "string option"
  pl_markdown :: "string option"
  pl_files :: "string list option"
  pl_parentId :: "string option"

record SendWebexMessageResult =
  send_ok :: bool
  send_messageId :: "string option"
  send_error :: "string option"

text \<open>\<open>s.replace(/^prefix/i, "")\<close> for a prefix of pattern characters.\<close>

definition stripPrefixIgnoreCase :: "string \<Rightarrow> string \<Rightarrow> string" where
  "stripPrefixIgnoreCase prefix s =
     (if map canonicalize (take (length prefix) s) = map canonicalize prefix
      then drop (length prefix) s else s)"

text \<open>The payload \<open>sendMessageWebex\<close> builds before it calls \<open>createMessage\<close>.\<close>

definition messagePayload :: "string \<Rightarrow> string \<Rightarrow> string option \<Rightarrow> MessagePayload" where
  "messagePayload to body mediaUrl =
     (let p0 = \<lparr> pl_roomId = None, pl_toPersonId = None, pl_toPersonEmail = None,
                 pl_text = None, pl_markdown = Some body, pl_files = None, pl_parentId = None \<rparr>;
          p1 = (if includesChar to CHR ''@'' then p0 \<lparr> pl_toPersonEmail := Some to \<rparr>
                else if startsWith to ''Y2lzY29zcGFyazovL3VzL1BFT1BMRS8'' \<or> startsWith to ''person:''
                then p0 \<lparr> pl_toPersonId := Some (stripPrefixIgnoreCase ''person:'' to) \<rparr>
                else p0 \<lparr> pl_roomId := Some (stripPrefixIgnoreCase ''room:'' to) \<rparr>)
      in if truthy mediaUrl then p1 \<lparr> pl_files := map_option (\<lambda>u. [u]) mediaUrl \<rparr> else p1)"

text \<open>
  \<open>createMessage t p\<close> is the answer of \<open>POST /messages\<close> to payload \<open>p\<close> from a client
  built with token \<open>t\<close>. The result is paired with the calls made to the API.
\<close>

definition sendMessageWebex ::
  "string option \<Rightarrow> WebexConfig option \<Rightarrow> (string \<Rightarrow> MessagePayload \<Rightarrow> js_error + WebexMessage) \<Rightarrow>
   string \<Rightarrow> string \<Rightarrow> string option \<Rightarrow> SendWebexMessageResult \<times> MessagePayload list" where
  "sendMessageWebex env cfg createMessage to body mediaUrl =
     (case resolveWebexCredentials env cfg of
        None \<Rightarrow>
          (\<lparr> send_ok = False, send_messageId = None,
             send_error = Some ''No Webex credentials configured'' \<rparr>, [])
      | Some credentials \<Rightarrow>
          (let payload = messagePayload to body mediaUrl
           in case createMessage (cred_botToken credentials) payload of
                Inl e \<Rightarrow>
                  (\<lparr> send_ok = False, send_messageId = None,
                     send_error = Some (''Failed to send Webex message: '' @ errorText e) \<rparr>,
                   [payload])
              | Inr response \<Rightarrow>
                  (\<lparr> send_ok = True, send_messageId = Some (msg_id response),
                     send_error = None \<rparr>, [payload])))"


section \<open>monitor.ts\<close>

text \<open>
  What the monitor does to the outside world is a list of effects, in the order of the
  calls. Of the log lines the model keeps the warnings, the errors, and the lines
  about filtered messages and the webhook subscription. \<open>Dispatch parsed t\<close> is the
  call of the dispatcher for the message \<open>parsed\<close> with the text \<open>t\<close> (\<open>None\<close> when
  the bot's name is outside the modelled patterns, see \<open>stripWebexBotMention\<close>).
\<close>

datatype level = LogDebug | LogInfo | LogWarn | LogError

datatype effect =
    Respond nat string
  | GetMessage string
  | RecordSessionMeta string
  | Dispatch ParsedWebexMessage "string option"
  | Log level string
  | Listen
  | ListWebhooks
  | CreateWebhook string
  | DeleteWebhook string
  | StartPolling
  | ClearInterval
  | CloseServer

text \<open>The variables of the closure that both ingestion paths read.\<close>

record BotCtx =
  ctx_botEmail :: string
  ctx_botId :: string
  ctx_botName :: string
  ctx_groupPolicy :: "string option"
  ctx_pollStartTime :: int

text \<open>
  How \<open>monitorWebexProvider\<close> fills them: from the probed bot, the configuration and
  \<open>Date.now()\<close> at startup. \<open>botInfo.emails[0] || ""\<close> is the first address, if any.
\<close>

definition botCtx :: "BotInfo \<Rightarrow> WebexConfig \<Rightarrow> int \<Rightarrow> BotCtx" where
  "botCtx botInfo c now =
     \<lparr> ctx_botEmail = (case bot_emails botInfo of [] \<Rightarrow> [] | email # _ \<Rightarrow> email),
       ctx_botId = bot_id botInfo,
       ctx_botName = bot_displayName botInfo,
       ctx_groupPolicy = groupPolicy c,
       ctx_pollStartTime = now \<rparr>"

definition requireMentionInGroups :: "string option \<Rightarrow> bool" where
  "requireMentionInGroups policy = (policy = Some ''mention'' \<or> policy = Some ''allowlist'')"

subsection \<open>The webhook endpoint\<close>

text \<open>
  What the outside world answers during one request: \<open>getMessage\<close> is the answer of
  \<open>client.getMessage\<close>; \<open>prepare\<close> is an exception of the synchronous calls between
  the gate and the dispatch (building the RegExp, routing, formatting the envelope);
  \<open>recordMeta\<close> is a rejection of \<open>recordSessionMetaFromInbound\<close>; \<open>dispatch\<close> is a
  rejection of \<open>dispatchReplyWithBufferedBlockDispatcher\<close>.
\<close>

record RequestEnv =
  rq_now :: int
  rq_getMessage :: "js_error + WebexMessage"
  rq_prepare :: "js_error option"
  rq_recordMeta :: "js_error option"
  rq_dispatch :: "js_error option"

text \<open>
  The body of the \<open>try\<close> block of the handler: its effects, and the exception that
  leaves it, if any. \<open>body\<close> is \<open>req.body\<close>; reading a property of a body that is not
  an object throws a TypeError. A body that is an object has the type
  \<open>WebexWebhookEvent\<close> of inbound.ts, whose \<open>data\<close> is present.
\<close>

definition webhookTry ::
  "BotCtx \<Rightarrow> RequestEnv \<Rightarrow> WebexWebhookEvent option \<Rightarrow> effect list \<times> js_error option" where
  "webhookTry ctx env body =
     (let ack = [Respond 200 ''OK'']
      in case body of
           None \<Rightarrow>
             (ack, Some \<lparr> err_name = ''TypeError'',
                          err_message = ''Cannot read properties of undefined (reading 'resource')'',
                          err_stack = None, err_json = ''{}'' \<rparr>)
         | Some event \<Rightarrow>
             if ev_resource event \<noteq> ''messages'' \<or> ev_event event \<noteq> ''created'' then (ack, None)
             else if isWebexBotMessage event (ctx_botEmail ctx) then (ack, None)
             else
               (let fetch = ack @ [GetMessage (data_id (ev_data event))]
                in case rq_getMessage env of
                     Inl e \<Rightarrow> (fetch, Some e)
                   | Inr fullMessage \<Rightarrow>
                       (let parsed = parseWebexWebhookEvent (rq_now env) event (Some fullMessage)
                                       (ctx_botId ctx)
                        in if \<not> shouldProcessWebexMessage parsed
                                  (requireMentionInGroups (ctx_groupPolicy ctx))
                           then (fetch @ [Log LogDebug ''skipping message: no mention in group''], None)
                           else
                             (case rq_prepare env of
                                Some e \<Rightarrow> (fetch, Some e)
                              | None \<Rightarrow>
                                  (let meta = fetch @ [RecordSessionMeta (messageId parsed)] @
                                         (case rq_recordMeta env of
                                            None \<Rightarrow> []
                                          | Some e \<Rightarrow>
                                              [Log LogWarn (''failed to record session metadata: '' @
                                                 errorToString e)]);
                                       sent = meta @ [Dispatch parsed (cleanText parsed (ctx_botName ctx))]
                                   in (sent, rq_dispatch env))))))"

text \<open>The handler: the \<open>try\<close> block and its \<open>catch\<close>, which logs and returns.\<close>

definition webhookHandler ::
  "BotCtx \<Rightarrow> RequestEnv \<Rightarrow> WebexWebhookEvent option \<Rightarrow> effect list" where
  "webhookHandler ctx env body =
     (case webhookTry ctx env body of
        (effects, None) \<Rightarrow> effects
      | (effects, Some e) \<Rightarrow> effects @ [Log LogError (''webhook error: '' @ errorText e)])"

subsection \<open>Startup and shutdown\<close>

record WebexWebhook =
  wh_id :: string
  wh_name :: string
  wh_targetUrl :: string
  wh_resource :: string
  wh_event :: string

text \<open>
  What the outside world answers during startup: the environment variable, the answer
  of \<open>GET /people/me\<close> per token, an exception of \<open>app.listen\<close>, and the answers of
  \<open>listWebhooks\<close> and \<open>createWebhook\<close>.
\<close>

record StartupEnv =
  st_envToken :: "string option"
  st_getMe :: "string \<Rightarrow> js_error + WebexPerson"
  st_listen :: "js_error option"
  st_listWebhooks :: "js_error + WebexWebhook list"
  st_createWebhook :: "js_error + WebexWebhook"

text \<open>
  The variables \<open>shutdown\<close> reads. \<open>mon_active\<close> is false when \<open>monitorWebexProvider\<close>
  returned early, with the empty \<open>shutdown\<close>.
\<close>

record Monitor =
  mon_mode :: string
  mon_active :: bool
  mon_server :: bool
  mon_webhookId :: "string option"
  mon_pollingInterval :: bool

definition inactive :: "string \<Rightarrow> Monitor" where
  "inactive m = \<lparr> mon_mode = m, mon_active = False, mon_server = False,
                  mon_webhookId = None, mon_pollingInterval = False \<rparr>"

definition webhookUrlOf :: "WebexConfig \<Rightarrow> string" where
  "webhookUrlOf c =
     orString (webhookUrl c)
       (''https://your-domain.com'' @ (case webhookPath c of None \<Rightarrow> ''/webex/webhook'' | Some p \<Rightarrow> p))"

text \<open>The inner \<open>try\<close> of startup: reuse a matching subscription or create one.\<close>

definition registerWebhook :: "string \<Rightarrow> StartupEnv \<Rightarrow> string option \<times> effect list" where
  "registerWebhook url env =
     (let failed = (\<lambda>e. [Log LogWarn (''webhook registration failed: '' @ errorText e),
                         Log LogWarn (''you may need to manually configure webhook to '' @ url)])
      in case st_listWebhooks env of
           Inl e \<Rightarrow> (None, ListWebhooks # failed e)
         | Inr items \<Rightarrow>
             (case find (\<lambda>wh. wh_targetUrl wh = url \<and> wh_resource wh = ''messages'') items of
                Some existing \<Rightarrow>
                  (Some (wh_id existing),
                   [ListWebhooks, Log LogInfo (''using existing webhook: '' @ wh_id existing)])
              | None \<Rightarrow>
                  (case st_createWebhook env of
                     Inl e \<Rightarrow> (None, [ListWebhooks, CreateWebhook url] @ failed e)
                   | Inr webhook \<Rightarrow>
                       (Some (wh_id webhook),
                        [ListWebhooks, CreateWebhook url,
                         Log LogInfo (''created webhook: '' @ wh_id webhook)]))))"

definition monitorWebexProvider :: "WebexConfig option \<Rightarrow> StartupEnv \<Rightarrow> Monitor \<times> effect list" where
  "monitorWebexProvider cfg env =
     (case cfg of
        None \<Rightarrow> (inactive ''webhook'', [Log LogDebug ''webex provider disabled''])
      | Some c \<Rightarrow>
          if \<not> enabled c then (inactive ''webhook'', [Log LogDebug ''webex provider disabled''])
          else if resolveWebexCredentials (st_envToken env) cfg = None
          then (inactive ''webhook'', [Log LogError ''webex credentials not configured''])
          else
            (let m = orString (mode c) ''webhook'';
                 probe = probeWebex cfg (st_envToken env) (st_getMe env)
             in if \<not> probe_ok probe \<or> probe_botInfo probe = None
                then (inactive m,
                      [Log LogError (''webex probe failed: '' @
                         (case probe_error probe of None \<Rightarrow> ''undefined'' | Some t \<Rightarrow> t))])
                else
                  (let enableWebhook = (m = ''webhook'' \<or> m = ''both'');
                       enablePolling = (m = ''polling'' \<or> m = ''both'');
                       polling = (if enablePolling then [StartPolling] else [])
                   in if \<not> enableWebhook
                      then (\<lparr> mon_mode = m, mon_active = True, mon_server = False,
                              mon_webhookId = None, mon_pollingInterval = enablePolling \<rparr>, polling)
                      else
                        (case st_listen env of
                           Some e \<Rightarrow>
                             (let failed = [Log LogError (''failed to start webhook server: '' @
                                                           errorText e)]
                              in if m = ''webhook'' then (inactive m, failed)
                                 else (\<lparr> mon_mode = m, mon_active = True, mon_server = False,
                                         mon_webhookId = None,
                                         mon_pollingInterval = enablePolling \<rparr>,
                                       failed @ [Log LogWarn ''continuing with polling mode only'']
                                         @ polling))
                         | None \<Rightarrow>
                             (case registerWebhook (webhookUrlOf c) env of
                                (wid, registration) \<Rightarrow>
                                  (\<lparr> mon_mode = m, mon_active = True, mon_server = True,
                                     mon_webhookId = wid, mon_pollingInterval = enablePolling \<rparr>,
                                   Listen # registration @ polling))))))"

text \<open>
  \<open>shutdown\<close>; \<open>deleted\<close> is a rejection of \<open>client.deleteWebhook\<close>. A string is truthy
  when it is not empty.
\<close>

definition shutdown :: "Monitor \<Rightarrow> js_error option \<Rightarrow> effect list" where
  "shutdown m deleted =
     (if \<not> mon_active m then []
      else
        Log LogInfo ''shutting down webex monitor'' #
        (if mon_pollingInterval m then [ClearInterval, Log LogInfo ''polling stopped''] else []) @
        (case mon_webhookId m of
           None \<Rightarrow> []
         | Some wid \<Rightarrow>
             if wid = [] then []
             else DeleteWebhook wid #
               (case deleted of
                  None \<Rightarrow> [Log LogInfo (''deleted webhook: '' @ wid)]
                | Some e \<Rightarrow> [Log LogWarn (''failed to delete webhook: '' @ errorText e)])) @
        (if mon_server m then [CloseServer, Log LogInfo ''webhook server stopped''] else []))"


subsection \<open>The polling loop\<close>

text \<open>\<open>lastMessageTimeByRoom\<close>, a \<open>Map<string, number>\<close> keyed by room id.\<close>

type_synonym watermarks = "string \<rightharpoonup> int"

text \<open>
  \<open>lastMessageTimeByRoom.get(room.id) || pollStartTime\<close>: a missing entry and the
  number 0 are falsy.
\<close>

definition lastTimeOf :: "BotCtx \<Rightarrow> watermarks \<Rightarrow> string \<Rightarrow> int" where
  "lastTimeOf ctx store room =
     (case store room of
        None \<Rightarrow> ctx_pollStartTime ctx
      | Some t \<Rightarrow> if t = 0 then ctx_pollStartTime ctx else t)"

text \<open>\<open>lastMessageTimeByRoom.set(room.id, Math.max(lastTime, messageTime))\<close>.\<close>

definition advance :: "watermarks \<Rightarrow> string \<Rightarrow> int \<Rightarrow> int \<Rightarrow> watermarks" where
  "advance store room lastTime messageTime = store(room \<mapsto> max lastTime messageTime)"

text \<open>The event the loop builds from a polled message.\<close>

definition eventOfMessage :: "WebexMessage \<Rightarrow> WebexWebhookEvent" where
  "eventOfMessage message =
     \<lparr> ev_resource = ''messages'', ev_event = ''created'',
       ev_data = \<lparr> data_id = msg_id message,
                   data_roomId = Some (msg_roomId message),
                   data_roomType = Some (msg_roomType message),
                   data_personId = Some (msg_personId message),
                   data_personEmail = Some (msg_personEmail message),
                   data_mentionedPeople = msg_mentionedPeople message,
                   data_created = Some (msg_created message) \<rparr> \<rparr>"

text \<open>
  The branches of the loop body, up to the point where the message is handed to the
  dispatcher. \<open>created\<close> of the event is present, so \<open>Date.now()\<close> is not evaluated.
\<close>

datatype verdict = Old | Own | Gated | Forward ParsedWebexMessage "string option"

definition examine :: "BotCtx \<Rightarrow> int \<Rightarrow> WebexMessage \<Rightarrow> verdict" where
  "examine ctx lastTime message =
     (if msg_created message \<le> lastTime then Old
      else if msg_personEmail message = ctx_botEmail ctx then Own
      else
        (let parsed = parseWebexWebhookEvent 0 (eventOfMessage message) (Some message)
                        (ctx_botId ctx)
         in if \<not> shouldProcessWebexMessage parsed (requireMentionInGroups (ctx_groupPolicy ctx))
            then Gated
            else Forward parsed (cleanText parsed (ctx_botName ctx))))"

subsubsection \<open>One room in one tick, run without interruption\<close>

text \<open>
  What became of a message in the loop, and the watermarks after it. \<open>failing\<close> tells
  which messages (by id) make the dispatch pipeline throw; the exception ends the
  loop of this room (it is caught by the \<open>try\<close> around the room).
\<close>

datatype outcome = SkippedOld | SkippedOwn | SkippedGate | Dispatched "string option" | Threw js_error

fun pollLoop ::
  "BotCtx \<Rightarrow> string \<Rightarrow> int \<Rightarrow> (string \<Rightarrow> js_error option) \<Rightarrow> WebexMessage list \<Rightarrow> watermarks \<Rightarrow>
   (WebexMessage \<times> outcome \<times> watermarks) list" where
  "pollLoop ctx room lastTime failing [] store = []"
| "pollLoop ctx room lastTime failing (m # ms) store =
     (case examine ctx lastTime m of
        Old \<Rightarrow> (m, SkippedOld, store) # pollLoop ctx room lastTime failing ms store
      | Own \<Rightarrow>
          (let store' = advance store room lastTime (msg_created m)
           in (m, SkippedOwn, store') # pollLoop ctx room lastTime failing ms store')
      | Gated \<Rightarrow>
          (let store' = advance store room lastTime (msg_created m)
           in (m, SkippedGate, store') # pollLoop ctx room lastTime failing ms store')
      | Forward parsed t \<Rightarrow>
          (case failing (msg_id m) of
             Some e \<Rightarrow> [(m, Threw e, store)]
           | None \<Rightarrow>
               (let store' = advance store room lastTime (msg_created m)
                in (m, Dispatched t, store') # pollLoop ctx room lastTime failing ms store')))"

text \<open>
  The room's part of a tick: read the watermark, then walk
  \<open>[...items].reverse()\<close>, where \<open>items\<close> is \<open>messages.items || []\<close>.
\<close>

definition pollRoom ::
  "BotCtx \<Rightarrow> string \<Rightarrow> (string \<Rightarrow> js_error option) \<Rightarrow> WebexMessage list option \<Rightarrow> watermarks \<Rightarrow>
   (WebexMessage \<times> outcome \<times> watermarks) list" where
  "pollRoom ctx room failing items store =
     pollLoop ctx room (lastTimeOf ctx store room) failing (rev (orEmpty items)) store"

text \<open>The watermarks a run of the loop leaves behind.\<close>

definition finalStore :: "watermarks \<Rightarrow> (WebexMessage \<times> outcome \<times> watermarks) list \<Rightarrow> watermarks" where
  "finalStore store trace = (case trace of [] \<Rightarrow> store | _ \<Rightarrow> snd (snd (last trace)))"

subsubsection \<open>Ticks that overlap\<close>

text \<open>
  \<open>pollMessages\<close> is an async function started by a timer that does not wait for the
  one before. JavaScript runs one tick at a time and switches only at an \<open>await\<close>, so
  a tick is a state between two awaits, and a step runs it from the answer it waited
  for to its next \<open>await\<close>. The two awaits around the dispatch have no access to the
  watermarks between them and are one state; an exception of the synchronous calls
  before them is given to the tick as the answer of the dispatch.
\<close>

datatype tick =
    AwaitRooms
  | AwaitMessages string int "string list"
  | AwaitDispatch string int int "WebexMessage list" "string list"
  | Finished

datatype response =
    Rooms "js_error + string list"
  | Messages "js_error + WebexMessage list option"
  | DispatchDone "js_error option"

text \<open>
  The head of the \<open>for\<close> loop over the rooms (a room is its id): read the watermark of
  the next room and wait for its messages.
\<close>

fun nextRoom :: "BotCtx \<Rightarrow> watermarks \<Rightarrow> string list \<Rightarrow> tick" where
  "nextRoom ctx store [] = Finished"
| "nextRoom ctx store (room # rooms) = AwaitMessages room (lastTimeOf ctx store room) rooms"

text \<open>The loop over the messages of a room, up to the next \<open>await\<close>.\<close>

fun messageLoop ::
  "BotCtx \<Rightarrow> string \<Rightarrow> int \<Rightarrow> string list \<Rightarrow> WebexMessage list \<Rightarrow> watermarks \<Rightarrow>
   watermarks \<times> tick \<times> effect list" where
  "messageLoop ctx room lastTime rooms [] store = (store, nextRoom ctx store rooms, [])"
| "messageLoop ctx room lastTime rooms (m # ms) store =
     (case examine ctx lastTime m of
        Old \<Rightarrow> messageLoop ctx room lastTime rooms ms store
      | Own \<Rightarrow> messageLoop ctx room lastTime rooms ms (advance store room lastTime (msg_created m))
      | Gated \<Rightarrow> messageLoop ctx room lastTime rooms ms (advance store room lastTime (msg_created m))
      | Forward parsed t \<Rightarrow>
          (store, AwaitDispatch room lastTime (msg_created m) ms rooms, [Dispatch parsed t]))"

fun resume :: "BotCtx \<Rightarrow> watermarks \<Rightarrow> tick \<Rightarrow> response \<Rightarrow> watermarks \<times> tick \<times> effect list" where
  "resume ctx store AwaitRooms (Rooms (Inl e)) =
     (store, Finished,
      [Log LogError (''polling error: '' @ errorText e),
       Log LogError (''error details: '' @ err_json e)] @
      (if truthy (err_stack e)
       then [Log LogError (''error stack: '' @ orString (err_stack e) [])] else []))"
| "resume ctx store AwaitRooms (Rooms (Inr rooms)) = (store, nextRoom ctx store rooms, [])"
| "resume ctx store (AwaitMessages room lastTime rooms) (Messages (Inl e)) =
     (store, nextRoom ctx store rooms,
      [Log LogWarn (''error polling room '' @ room @ '': '' @ errorText e)])"
| "resume ctx store (AwaitMessages room lastTime rooms) (Messages (Inr items)) =
     messageLoop ctx room lastTime rooms (rev (orEmpty items)) store"
| "resume ctx store (AwaitDispatch room lastTime messageTime ms rooms) (DispatchDone (Some e)) =
     (store, nextRoom ctx store rooms,
      [Log LogWarn (''error polling room '' @ room @ '': '' @ errorText e)])"
| "resume ctx store (AwaitDispatch room lastTime messageTime ms rooms) (DispatchDone None) =
     messageLoop ctx room lastTime rooms ms (advance store room lastTime messageTime)"
| "resume ctx store t r = (store, t, [])"

text \<open>
  The process: the watermarks, the ticks started so far, and the effects so far.
  \<open>Fire\<close> is the timer (or the initial poll) calling \<open>pollMessages\<close>; \<open>Resume i r\<close>
  hands answer \<open>r\<close> to the tick started \<open>i\<close>-th.
\<close>

datatype action = Fire | Resume nat response

type_synonym process = "watermarks \<times> tick list \<times> effect list"

fun step :: "BotCtx \<Rightarrow> process \<Rightarrow> action \<Rightarrow> process" where
  "step ctx (store, ticks, sofar) Fire = (store, ticks @ [AwaitRooms], sofar)"
| "step ctx (store, ticks, sofar) (Resume i r) =
     (if i < length ticks
      then (case resume ctx store (ticks ! i) r of
              (store', t, effects) \<Rightarrow> (store', ticks[i := t], sofar @ effects))
      else (store, ticks, sofar))"

definition run :: "BotCtx \<Rightarrow> process \<Rightarrow> action list \<Rightarrow> process" where
  "run ctx state actions = foldl (step ctx) state actions"


section \<open>Predicates and example values of the statements\<close>

text \<open>The order in which \<open>GET /messages\<close> lists a room: newest first.\<close>

definition newestFirst :: "WebexMessage list \<Rightarrow> bool" where
  "newestFirst items = sorted_wrt (\<lambda>a b. msg_created b \<le> msg_created a) items"

fun isResponse :: "effect \<Rightarrow> bool" where
  "isResponse (Respond code body) = True"
| "isResponse e = False"

definition exampleConfig :: WebexConfig where
  "exampleConfig =
     \<lparr> enabled = True, mode = Some ''both'', botToken = Some ''config-token'',
       groupPolicy = Some ''mention'', webhookPort = None, webhookPath = None,
       webhookUrl = Some ''https://bot.example.com/webex/webhook'', intervalSeconds = None \<rparr>"

definition exampleCtx :: BotCtx where
  "exampleCtx = \<lparr> ctx_botEmail = ''bot@webex.bot'', ctx_botId = ''bot-id'',
                   ctx_botName = ''Moltbot'', ctx_groupPolicy = Some ''mention'',
                   ctx_pollStartTime = 100 \<rparr>"

definition exampleEvent :: WebexWebhookEvent where
  "exampleEvent =
     \<lparr> ev_resource = ''messages'', ev_event = ''created'',
       ev_data = \<lparr> data_id = ''msg-1'', data_roomId = Some ''room-1'',
                   data_roomType = Some ''group'', data_personId = Some ''person-1'',
                   data_personEmail = Some ''user@example.com'',
                   data_mentionedPeople = Some [''bot-id''], data_created = Some 1000 \<rparr> \<rparr>"

definition exampleMessage :: WebexMessage where
  "exampleMessage =
     \<lparr> msg_id = ''msg-1'', msg_roomId = ''room-1'', msg_roomType = ''group'',
       msg_text = Some ''hello'', msg_markdown = None, msg_files = None,
       msg_personId = ''person-1'', msg_personEmail = ''user@example.com'',
       msg_created = 1000, msg_mentionedPeople = Some [''bot-id''] \<rparr>"

definition exampleParsed :: ParsedWebexMessage where
  "exampleParsed =
     \<lparr> messageId = ''msg-1'', roomId = Some ''room-1'', roomType = Some Group,
       personId = ''person-1'', personEmail = ''user@example.com'',
       text' = Some ''hello'', markdown = None, files = Some [], mentionedPeople = Some [],
       created = 1000, isBotMentioned = False \<rparr>"

definition examplePerson :: WebexPerson where
  "examplePerson = \<lparr> person_id = ''bot-id'', person_displayName = ''Moltbot'',
                     person_emails = Some [''bot@webex.bot''] \<rparr>"

definition exampleWebhook :: WebexWebhook where
  "exampleWebhook = \<lparr> wh_id = ''wh-old'', wh_name = ''Moltbot Webex Webhook'',
                      wh_targetUrl = ''https://bot.example.com/webex/webhook'',
                      wh_resource = ''messages'', wh_event = ''created'' \<rparr>"

definition apiDown :: js_error where
  "apiDown = \<lparr> err_name = ''Error'', err_message = ''HTTP 503'', err_stack = None,
                 err_json = ''{}'' \<rparr>"

text \<open>A startup in which every call succeeds and a matching subscription exists.\<close>

definition exampleStartup :: StartupEnv where
  "exampleStartup =
     \<lparr> st_envToken = None, st_getMe = (\<lambda>t. Inr examplePerson), st_listen = None,
       st_listWebhooks = Inr [exampleWebhook],
       st_createWebhook = Inr (exampleWebhook \<lparr> wh_id := ''wh-new'' \<rparr>) \<rparr>"

text \<open>A request whose message is fetched and forwarded, and whose dispatch fails.\<close>

definition exampleRequest :: RequestEnv where
  "exampleRequest = \<lparr> rq_now = 2000, rq_getMessage = Inr exampleMessage, rq_prepare = None,
                       rq_recordMeta = None, rq_dispatch = Some apiDown \<rparr>"

text \<open>A message of a user in a direct room, with id \<open>i\<close>, created at \<open>t\<close>.\<close>

definition directMessage :: "string \<Rightarrow> int \<Rightarrow> WebexMessage" where
  "directMessage i t =
     \<lparr> msg_id = i, msg_roomId = ''room-1'', msg_roomType = ''direct'',
       msg_text = Some ''hello'', msg_markdown = None, msg_files = None,
       msg_personId = ''person-1'', msg_personEmail = ''user@example.com'',
       msg_created = t, msg_mentionedPeople = None \<rparr>"

text \<open>
  Two ticks on one room. The first tick fetches message m1 (created at 101) and waits
  for its dispatch. The timer fires again: the second tick reads the same watermark,
  fetches m2 (created at 105) and m1, dispatches both and finishes. Then the dispatch
  of the first tick returns.
\<close>

definition overlap :: "action list" where
  "overlap =
     [Fire,
      Resume 0 (Rooms (Inr [''room-1''])),
      Resume 0 (Messages (Inr (Some [directMessage ''m1'' 101]))),
      Fire,
      Resume 1 (Rooms (Inr [''room-1''])),
      Resume 1 (Messages (Inr (Some [directMessage ''m2'' 105, directMessage ''m1'' 101]))),
      Resume 1 (DispatchDone None),
      Resume 1 (DispatchDone None),
      Resume 0 (DispatchDone None)]"

text \<open>
  What \<open>GET /messages\<close> lists for a room, newest first: a message of the bot itself,
  a message in a group room that does not mention the bot, a direct message of a
  user, and a direct message older than the start of the polling.
\<close>

definition exampleItems :: "WebexMessage list" where
  "exampleItems =
     [(directMessage ''m3'' 130) \<lparr> msg_personEmail := ''bot@webex.bot'' \<rparr>,
      (directMessage ''m2'' 120) \<lparr> msg_roomType := ''group'' \<rparr>,
      directMessage ''m1'' 110,
      directMessage ''m0'' 90]"

text \<open>
  The answers of the dispatcher to a tick that walks the messages \<open>ms\<close> alone: one
  for each message it forwards, up to the first failure.
\<close>

fun dispatchAnswers ::
  "BotCtx \<Rightarrow> int \<Rightarrow> (string \<Rightarrow> js_error option) \<Rightarrow> WebexMessage list \<Rightarrow> js_error option list" where
  "dispatchAnswers ctx lastTime failing [] = []"
| "dispatchAnswers ctx lastTime failing (m # ms) =
     (case examine ctx lastTime m of
        Forward parsed t \<Rightarrow>
          (case failing (msg_id m) of
             Some e \<Rightarrow> [Some e]
           | None \<Rightarrow> None # dispatchAnswers ctx lastTime failing ms)
      | _ \<Rightarrow> dispatchAnswers ctx lastTime failing ms)"

section \<open>The access-policy gate\<close>

text \<open>
  Claim C1. \<open>shouldProcessWebexMessage\<close> implements the decision table of the gate: for
  every parsed message and every \<open>requireMentionInGroups\<close> it answers true for a
  direct room; true for a group room when no mention is required; true for a group
  room when a mention is required and the bot is mentioned; false for a group room
  when a mention is required and the bot is not mentioned.
\<close>

theorem gate_decision_table:
  "(roomType p = Some Direct \<longrightarrow> shouldProcessWebexMessage p r) \<and>
   (roomType p = Some Group \<and> \<not> r \<longrightarrow> shouldProcessWebexMessage p r) \<and>
   (roomType p = Some Group \<and> r \<and> isBotMentioned p \<longrightarrow> shouldProcessWebexMessage p r) \<and>
   (roomType p = Some Group \<and> r \<and> \<not> isBotMentioned p \<longrightarrow> \<not> shouldProcessWebexMessage p r)"
  by (simp add: shouldProcessWebexMessage_def)

theorem gate_decision_table_witness:
  "shouldProcessWebexMessage (exampleParsed \<lparr> roomType := Some Direct \<rparr>) True \<and>
   shouldProcessWebexMessage exampleParsed False \<and>
   shouldProcessWebexMessage (exampleParsed \<lparr> isBotMentioned := True \<rparr>) True \<and>
   \<not> shouldProcessWebexMessage exampleParsed True"
  using gate_decision_table [of "exampleParsed \<lparr> roomType := Some Direct \<rparr>" True]
    gate_decision_table [of exampleParsed False]
    gate_decision_table [of "exampleParsed \<lparr> isBotMentioned := True \<rparr>" True]
    gate_decision_table [of exampleParsed True]
  by (simp add: exampleParsed_def)


section \<open>The normalizer\<close>

text \<open>
  Claim C7, as the specification states it, also says that the text fields default
  to the empty string when the full message detail lacks them. The parser does not do
  that: a detail without \<open>text\<close> gives a parsed message without \<open>text\<close>.
\<close>

theorem parse_text_absent_counterexample:
  "text' (parseWebexWebhookEvent 0 exampleEvent (Some (exampleMessage \<lparr> msg_text := None \<rparr>))
            ''bot-id'') \<noteq> Some []"
  by (simp add: parseWebexWebhookEvent_def exampleMessage_def Let_def)

text \<open>
  Claim C7, amended. \<open>parseWebexWebhookEvent\<close> is a total function and: the bot counts
  as mentioned exactly when its id is in the event's \<open>mentionedPeople\<close> (an absent list
  is empty); the room type is \<open>direct\<close> exactly when the raw value is the literal
  \<open>direct\<close>, and \<open>group\<close> otherwise; the sender fields \<open>personId\<close> and \<open>personEmail\<close>
  default to the empty string when the event lacks them; \<open>text\<close> and \<open>markdown\<close> are
  copied from the full message detail and stay absent when the detail lacks them. The
  empty string comes later, from \<open>text || markdown || ""\<close> of the ingestion paths:
  when both are absent that expression is the empty string, which is what the paths
  hand on, after \<open>stripWebexBotMention\<close> when the bot is mentioned.
\<close>

theorem parse_normalizes:
  "isBotMentioned (parseWebexWebhookEvent now event fullMessage botId) =
     (case data_mentionedPeople (ev_data event) of None \<Rightarrow> False | Some ids \<Rightarrow> botId \<in> set ids) \<and>
   (roomType (parseWebexWebhookEvent now event fullMessage botId) = Some Direct) =
     (data_roomType (ev_data event) = Some ''direct'') \<and>
   (roomType (parseWebexWebhookEvent now event fullMessage botId) = Some Group) =
     (data_roomType (ev_data event) \<noteq> Some ''direct'') \<and>
   (data_personId (ev_data event) = None \<longrightarrow>
      personId (parseWebexWebhookEvent now event fullMessage botId) = []) \<and>
   (data_personEmail (ev_data event) = None \<longrightarrow>
      personEmail (parseWebexWebhookEvent now event fullMessage botId) = []) \<and>
   text' (parseWebexWebhookEvent now event fullMessage botId) =
     (case fullMessage of None \<Rightarrow> None | Some m \<Rightarrow> msg_text m) \<and>
   markdown (parseWebexWebhookEvent now event fullMessage botId) =
     (case fullMessage of None \<Rightarrow> None | Some m \<Rightarrow> msg_markdown m) \<and>
   (text' (parseWebexWebhookEvent now event fullMessage botId) = None \<and>
    markdown (parseWebexWebhookEvent now event fullMessage botId) = None \<longrightarrow>
      orString (orElse (text' (parseWebexWebhookEvent now event fullMessage botId))
                       (markdown (parseWebexWebhookEvent now event fullMessage botId))) [] = [] \<and>
      cleanText (parseWebexWebhookEvent now event fullMessage botId) botName =
        (if isBotMentioned (parseWebexWebhookEvent now event fullMessage botId)
         then stripWebexBotMention [] botName else Some []))"
proof -
  have fields:
    "isBotMentioned (parseWebexWebhookEvent now event fullMessage botId) =
       (case data_mentionedPeople (ev_data event) of None \<Rightarrow> False | Some ids \<Rightarrow> botId \<in> set ids)"
    "(roomType (parseWebexWebhookEvent now event fullMessage botId) = Some Direct) =
       (data_roomType (ev_data event) = Some ''direct'')"
    "(roomType (parseWebexWebhookEvent now event fullMessage botId) = Some Group) =
       (data_roomType (ev_data event) \<noteq> Some ''direct'')"
    "data_personId (ev_data event) = None \<longrightarrow>
       personId (parseWebexWebhookEvent now event fullMessage botId) = []"
    "data_personEmail (ev_data event) = None \<longrightarrow>
       personEmail (parseWebexWebhookEvent now event fullMessage botId) = []"
    "text' (parseWebexWebhookEvent now event fullMessage botId) =
       (case fullMessage of None \<Rightarrow> None | Some m \<Rightarrow> msg_text m)"
    "markdown (parseWebexWebhookEvent now event fullMessage botId) =
       (case fullMessage of None \<Rightarrow> None | Some m \<Rightarrow> msg_markdown m)"
    by (auto simp: parseWebexWebhookEvent_def wasWebexBotMentioned_def orEmpty_def orString_def
        Let_def split: option.splits)
  have later: "text' p = None \<and> markdown p = None \<longrightarrow>
      orString (orElse (text' p) (markdown p)) [] = [] \<and>
      cleanText p botName = (if isBotMentioned p then stripWebexBotMention [] botName else Some [])"
    for p
    by (simp add: cleanText_def orElse_def orString_def truthy_def Let_def)
  show ?thesis
    using fields later [of "parseWebexWebhookEvent now event fullMessage botId"] by blast
qed

theorem parse_normalizes_witness:
  "\<not> isBotMentioned (parseWebexWebhookEvent 0
        (exampleEvent \<lparr> ev_data := (ev_data exampleEvent)
           \<lparr> data_roomType := Some ''direct'', data_personId := None,
             data_personEmail := None, data_mentionedPeople := None \<rparr> \<rparr>) None ''bot-id'') \<and>
   roomType (parseWebexWebhookEvent 0
        (exampleEvent \<lparr> ev_data := (ev_data exampleEvent)
           \<lparr> data_roomType := Some ''direct'', data_personId := None,
             data_personEmail := None, data_mentionedPeople := None \<rparr> \<rparr>) None ''bot-id'')
     = Some Direct \<and>
   personId (parseWebexWebhookEvent 0
        (exampleEvent \<lparr> ev_data := (ev_data exampleEvent)
           \<lparr> data_roomType := Some ''direct'', data_personId := None,
             data_personEmail := None, data_mentionedPeople := None \<rparr> \<rparr>) None ''bot-id'') = [] \<and>
   text' (parseWebexWebhookEvent 0
        (exampleEvent \<lparr> ev_data := (ev_data exampleEvent)
           \<lparr> data_roomType := Some ''direct'', data_personId := None,
             data_personEmail := None, data_mentionedPeople := None \<rparr> \<rparr>) None ''bot-id'') = None \<and>
   cleanText (parseWebexWebhookEvent 0
        (exampleEvent \<lparr> ev_data := (ev_data exampleEvent)
           \<lparr> data_roomType := Some ''direct'', data_personId := None,
             data_personEmail := None, data_mentionedPeople := None \<rparr> \<rparr>) None ''bot-id'')
     ''Moltbot'' = Some [] \<and>
   isBotMentioned (parseWebexWebhookEvent 0 exampleEvent None ''bot-id'') \<and>
   cleanText (parseWebexWebhookEvent 0 exampleEvent None ''bot-id'') ''Moltbot'' = Some []"
proof -
  have strip: "stripWebexBotMention [] ''Moltbot'' = Some []"
    by code_simp
  show ?thesis
    using parse_normalizes [of 0
        "exampleEvent \<lparr> ev_data := (ev_data exampleEvent)
           \<lparr> data_roomType := Some ''direct'', data_personId := None,
             data_personEmail := None, data_mentionedPeople := None \<rparr> \<rparr>"
        None "''bot-id''" "''Moltbot''"]
      parse_normalizes [of 0 exampleEvent None "''bot-id''" "''Moltbot''"] strip
    by (simp add: exampleEvent_def)
qed

section \<open>The bot token\<close>

lemma resolve_prefers_env:
  "truthy (trimOpt env) \<Longrightarrow>
   resolveWebexCredentials env cfg = map_option (\<lambda>t. \<lparr> cred_botToken = t \<rparr>) (trimOpt env)"
  by (simp add: resolveWebexCredentials_def Let_def)

lemma probe_prefers_config:
  "truthy (trimOpt (botToken c)) \<Longrightarrow> probeToken (Some c) env = trimOpt (botToken c)"
  by (simp add: probeToken_def orElse_def Let_def)

text \<open>
  Claim C8: when both the environment variable and the configuration hold a token,
  the environment's token is the one used, wherever the token is resolved.
  \<open>resolveWebexCredentials\<close> does so (\<open>resolve_prefers_env\<close>); \<open>probeWebex\<close> takes the
  configuration's token first (\<open>probe_prefers_config\<close>). With \<open>env-token\<close> in the
  environment and \<open>config-token\<close> in the configuration, the credentials hold
  \<open>env-token\<close> and the probe asks \<open>GET /people/me\<close> with \<open>config-token\<close> (the answer
  here echoes the token as the person's id).
\<close>

theorem probe_token_precedence:
  "resolveWebexCredentials (Some ''env-token'') (Some exampleConfig)
     = Some \<lparr> cred_botToken = ''env-token'' \<rparr> \<and>
   probeToken (Some exampleConfig) (Some ''env-token'') = Some ''config-token'' \<and>
   map_option bot_id (probe_botInfo (probeWebex (Some exampleConfig) (Some ''env-token'')
       (\<lambda>t. Inr \<lparr> person_id = t, person_displayName = ''Bot'', person_emails = None \<rparr>)))
     = Some ''config-token''"
  by (simp add: resolveWebexCredentials_def probeToken_def probeWebex_def exampleConfig_def
      trimOpt_def trim_def isWhiteSpace_def truthy_def orElse_def Let_def)

section \<open>The text handed to the dispatcher\<close>

lemma nameAtoms_literal:
  "list_all (\<lambda>c. \<not> isSyntaxCharacter c) n \<Longrightarrow> nameAtoms n = Some (map Literal n)"
  by (induction n) (auto simp: isSyntaxCharacter_def)

lemma matchAtoms_literal:
  "matchAtoms (map Literal n) s =
     (if map canonicalize (take (length n) s) = map canonicalize n
      then Some (drop (length n) s) else None)"
proof (induction n arbitrary: s)
  case Nil
  then show ?case by simp
next
  case (Cons c cs)
  then show ?case by (cases s) auto
qed

lemma trim_dropWhile: "trim (dropWhile isWhiteSpace s) = trim s"
  by (simp add: trim_def)

text \<open>
  For a display name without syntax characters the pattern is the literal name: the
  mention is removed when the text starts with \<open>@name\<close> in any letter case, and the
  result is trimmed.
\<close>

lemma stripWebexBotMention_literal:
  assumes "list_all (\<lambda>c. \<not> isSyntaxCharacter c) botName"
  shows "stripWebexBotMention s botName =
           Some (trim (stripPrefixIgnoreCase (CHR ''@'' # botName) s))"
proof -
  have "mentionPattern botName = Some (map Literal (CHR ''@'' # botName))"
    using assms by (simp add: mentionPattern_def nameAtoms_literal)
  then show ?thesis
    by (simp add: stripWebexBotMention_def replaceMention_def matchAtoms_literal
        stripPrefixIgnoreCase_def trim_dropWhile del: list.map)
qed

lemma cleanText_literal:
  assumes "list_all (\<lambda>c. \<not> isSyntaxCharacter c) botName"
  shows "cleanText parsed botName =
           Some (if isBotMentioned parsed
                 then trim (stripPrefixIgnoreCase (CHR ''@'' # botName)
                              (orString (orElse (text' parsed) (markdown parsed)) []))
                 else orString (orElse (text' parsed) (markdown parsed)) [])"
  using assms by (simp add: cleanText_def Let_def stripWebexBotMention_literal)

text \<open>
  Claim C9: the text handed to the dispatcher is \<open>text\<close>, else \<open>markdown\<close>, else the
  empty string; when the bot was mentioned, a leading \<open>@<botDisplayName>\<close> (in any
  letter case) is removed and the text is trimmed; a text that does not start with
  that prefix is passed on unchanged. That holds for the display names without RegExp
  syntax characters (\<open>cleanText_literal\<close>). The name is put into the pattern unescaped,
  so for the bot named \<open>Dr.Bot\<close> the text \<open>@DrxBot hello\<close>, which does not start with
  \<open>@Dr.Bot\<close>, loses its first word.
\<close>

theorem cleanText_wildcard_name:
  "cleanText (exampleParsed \<lparr> text' := Some ''@DrxBot hello'', isBotMentioned := True \<rparr>) ''Dr.Bot''
     = Some ''hello''"
  unfolding exampleParsed_def by code_simp

section \<open>Outbound addressing\<close>

lemma canonicalize_of_Y: "canonicalize CHR ''Y'' = CHR ''Y''"
  by code_simp

lemma canonicalize_of_p: "canonicalize CHR ''p'' = CHR ''P''"
  by code_simp

lemma strip_person_prefix:
  "startsWith to ''person:'' \<Longrightarrow>
   stripPrefixIgnoreCase ''person:'' to = drop (length ''person:'') to"
  by (simp add: startsWith_def stripPrefixIgnoreCase_def)

lemma strip_room_prefix:
  "startsWith to ''room:'' \<Longrightarrow>
   stripPrefixIgnoreCase ''room:'' to = drop (length ''room:'') to"
  by (simp add: startsWith_def stripPrefixIgnoreCase_def)

lemma strip_person_base64:
  assumes "startsWith to ''Y2lzY29zcGFyazovL3VzL1BFT1BMRS8''"
  shows "stripPrefixIgnoreCase ''person:'' to = to"
proof -
  from assms obtain rest where "to = CHR ''Y'' # rest"
    by (cases to) (auto simp: startsWith_def)
  then show ?thesis
    by (simp add: stripPrefixIgnoreCase_def canonicalize_of_Y canonicalize_of_p)
qed

lemma payload_email:
  "includesChar to CHR ''@'' \<Longrightarrow>
   pl_toPersonEmail (messagePayload to body mediaUrl) = Some to \<and>
   pl_toPersonId (messagePayload to body mediaUrl) = None \<and>
   pl_roomId (messagePayload to body mediaUrl) = None"
  by (simp add: messagePayload_def Let_def)

lemma payload_person:
  "\<not> includesChar to CHR ''@'' \<Longrightarrow>
   startsWith to ''Y2lzY29zcGFyazovL3VzL1BFT1BMRS8'' \<or> startsWith to ''person:'' \<Longrightarrow>
   pl_toPersonEmail (messagePayload to body mediaUrl) = None \<and>
   pl_toPersonId (messagePayload to body mediaUrl) = Some (stripPrefixIgnoreCase ''person:'' to) \<and>
   pl_roomId (messagePayload to body mediaUrl) = None"
  by (simp add: messagePayload_def Let_def)

lemma payload_room:
  "\<not> includesChar to CHR ''@'' \<Longrightarrow>
   \<not> startsWith to ''Y2lzY29zcGFyazovL3VzL1BFT1BMRS8'' \<Longrightarrow> \<not> startsWith to ''person:'' \<Longrightarrow>
   pl_toPersonEmail (messagePayload to body mediaUrl) = None \<and>
   pl_toPersonId (messagePayload to body mediaUrl) = None \<and>
   pl_roomId (messagePayload to body mediaUrl) = Some (stripPrefixIgnoreCase ''room:'' to)"
  by (simp add: messagePayload_def Let_def)

lemma payload_body:
  "pl_markdown (messagePayload to body mediaUrl) = Some body \<and>
   pl_text (messagePayload to body mediaUrl) = None"
  by (simp add: messagePayload_def Let_def)

lemma send_calls:
  "resolveWebexCredentials env cfg \<noteq> None \<Longrightarrow>
   snd (sendMessageWebex env cfg createMessage to body mediaUrl) = [messagePayload to body mediaUrl]"
  by (auto simp: sendMessageWebex_def Let_def split: option.splits sum.splits)

lemma send_no_credentials:
  "resolveWebexCredentials env cfg = None \<Longrightarrow>
   snd (sendMessageWebex env cfg createMessage to body mediaUrl) = []"
  by (simp add: sendMessageWebex_def)

text \<open>
  Claim C10. Every outbound send addresses its target through exactly one of the
  three fields: a target that contains \<open>@\<close> goes to \<open>toPersonEmail\<close>; otherwise a target
  that starts with the Base64 prefix of a person id, or with \<open>person:\<close>, goes to
  \<open>toPersonId\<close>, without the \<open>person:\<close> prefix; any other target goes to \<open>roomId\<close>,
  without a \<open>room:\<close> prefix (in any letter case). The body is sent in the \<open>markdown\<close>
  field and the \<open>text\<close> field is never set. With credentials, \<open>sendMessageWebex\<close> calls
  \<open>createMessage\<close> once, with this payload; without, it makes no call.
\<close>

theorem send_target_classification:
  "pl_markdown (messagePayload to body mediaUrl) = Some body \<and>
   pl_text (messagePayload to body mediaUrl) = None \<and>
   length (filter (\<lambda>field. field \<noteq> None)
     [pl_roomId (messagePayload to body mediaUrl),
      pl_toPersonId (messagePayload to body mediaUrl),
      pl_toPersonEmail (messagePayload to body mediaUrl)]) = 1 \<and>
   (includesChar to CHR ''@'' \<longrightarrow>
      pl_toPersonEmail (messagePayload to body mediaUrl) = Some to) \<and>
   (\<not> includesChar to CHR ''@'' \<and> startsWith to ''Y2lzY29zcGFyazovL3VzL1BFT1BMRS8'' \<longrightarrow>
      pl_toPersonId (messagePayload to body mediaUrl) = Some to) \<and>
   (\<not> includesChar to CHR ''@'' \<and> startsWith to ''person:'' \<longrightarrow>
      pl_toPersonId (messagePayload to body mediaUrl) = Some (drop (length ''person:'') to)) \<and>
   (\<not> includesChar to CHR ''@'' \<and> \<not> startsWith to ''Y2lzY29zcGFyazovL3VzL1BFT1BMRS8'' \<and>
    \<not> startsWith to ''person:'' \<longrightarrow>
      pl_roomId (messagePayload to body mediaUrl) = Some (stripPrefixIgnoreCase ''room:'' to)) \<and>
   (\<not> includesChar to CHR ''@'' \<and> startsWith to ''room:'' \<longrightarrow>
      pl_roomId (messagePayload to body mediaUrl) = Some (drop (length ''room:'') to)) \<and>
   (resolveWebexCredentials env cfg \<noteq> None \<longrightarrow>
      snd (sendMessageWebex env cfg createMessage to body mediaUrl)
        = [messagePayload to body mediaUrl]) \<and>
   (resolveWebexCredentials env cfg = None \<longrightarrow>
      snd (sendMessageWebex env cfg createMessage to body mediaUrl) = [])"
proof -
  have one: "length (filter (\<lambda>field. field \<noteq> None)
     [pl_roomId (messagePayload to body mediaUrl),
      pl_toPersonId (messagePayload to body mediaUrl),
      pl_toPersonEmail (messagePayload to body mediaUrl)]) = 1"
    using payload_email [of to body mediaUrl] payload_person [of to body mediaUrl]
      payload_room [of to body mediaUrl]
    by (cases "includesChar to CHR ''@''";
        cases "startsWith to ''Y2lzY29zcGFyazovL3VzL1BFT1BMRS8'' \<or> startsWith to ''person:''")
      auto
  have room: "startsWith to ''room:'' \<Longrightarrow> \<not> startsWith to ''Y2lzY29zcGFyazovL3VzL1BFT1BMRS8'' \<and>
      \<not> startsWith to ''person:''"
    by (cases to) (auto simp: startsWith_def)
  show ?thesis
    using one payload_body [of to body mediaUrl] payload_email [of to body mediaUrl]
      payload_person [of to body mediaUrl] payload_room [of to body mediaUrl]
      strip_person_prefix [of to] strip_person_base64 [of to] strip_room_prefix [of to] room
      send_calls [of env cfg createMessage to body mediaUrl]
      send_no_credentials [of env cfg createMessage to body mediaUrl]
    by simp
qed

theorem send_target_classification_witness:
  "pl_toPersonEmail (messagePayload ''user@example.com'' ''**hi**'' None) = Some ''user@example.com'' \<and>
   pl_toPersonId (messagePayload ''person:abc'' ''**hi**'' None) = Some ''abc'' \<and>
   pl_roomId (messagePayload ''room:xyz'' ''**hi**'' None) = Some ''xyz'' \<and>
   pl_markdown (messagePayload ''room:xyz'' ''**hi**'' None) = Some ''**hi**'' \<and>
   snd (sendMessageWebex (Some ''env-token'') None (\<lambda>t p. Inr exampleMessage) ''room:xyz'' ''**hi**'' None)
     = [messagePayload ''room:xyz'' ''**hi**'' None]"
proof -
  have h1: "includesChar ''user@example.com'' CHR ''@''"
    by (simp add: includesChar_def)
  have h2: "\<not> includesChar ''person:abc'' CHR ''@'' \<and> startsWith ''person:abc'' ''person:''"
    by (simp add: includesChar_def startsWith_def)
  have h3: "\<not> includesChar ''room:xyz'' CHR ''@'' \<and> startsWith ''room:xyz'' ''room:''"
    by (simp add: includesChar_def startsWith_def)
  have h4: "resolveWebexCredentials (Some ''env-token'') None \<noteq> None"
    by (simp add: resolveWebexCredentials_def trimOpt_def trim_def isWhiteSpace_def truthy_def)
  show ?thesis
    using send_target_classification [of "''user@example.com''" "''**hi**''" None] h1
      send_target_classification [of "''person:abc''" "''**hi**''" None] h2
      send_target_classification [of "''room:xyz''" "''**hi**''" None "Some ''env-token''" None
        "\<lambda>t p. Inr exampleMessage"] h3 h4
    by simp
qed


section \<open>The webhook endpoint\<close>

text \<open>
  Claim C6. For every POST to the webhook path the handler answers 200 before
  anything else (filtering, fetching the message, normalizing, gating,
  dispatching) and answers once, whatever the later phase does; an event whose
  resource is not \<open>messages\<close> or whose event is not \<open>created\<close> has no other effect (no
  dispatch, no log); and an exception of the later phase is caught: the handler
  logs it and returns.
\<close>

theorem webhook_ack_first:
  "take 1 (webhookHandler ctx env body) = [Respond 200 ''OK''] \<and>
   filter isResponse (webhookHandler ctx env body) = [Respond 200 ''OK''] \<and>
   (\<forall>event. body = Some event \<and> (ev_resource event \<noteq> ''messages'' \<or> ev_event event \<noteq> ''created'')
      \<longrightarrow> webhookHandler ctx env body = [Respond 200 ''OK'']) \<and>
   (\<forall>effects e. webhookTry ctx env body = (effects, Some e)
      \<longrightarrow> webhookHandler ctx env body = effects @ [Log LogError (''webhook error: '' @ errorText e)])"
  by (auto simp: webhookHandler_def webhookTry_def Let_def split: option.splits sum.splits)

theorem webhook_ack_first_witness:
  "webhookHandler exampleCtx exampleRequest (Some (exampleEvent \<lparr> ev_event := ''deleted'' \<rparr>))
     = [Respond 200 ''OK''] \<and>
   take 1 (webhookHandler exampleCtx exampleRequest (Some exampleEvent)) = [Respond 200 ''OK''] \<and>
   filter isResponse (webhookHandler exampleCtx exampleRequest (Some exampleEvent))
     = [Respond 200 ''OK'']"
  using webhook_ack_first [of exampleCtx exampleRequest "Some (exampleEvent \<lparr> ev_event := ''deleted'' \<rparr>)"]
    webhook_ack_first [of exampleCtx exampleRequest "Some exampleEvent"]
  by (simp add: exampleEvent_def)

text \<open>A dispatch that fails after the acknowledgment: one error line, the 200 stands.\<close>

lemma webhook_dispatch_failure_logged:
  "webhookHandler exampleCtx exampleRequest (Some exampleEvent) =
     [Respond 200 ''OK'', GetMessage ''msg-1'', RecordSessionMeta ''msg-1'',
      Dispatch (parseWebexWebhookEvent 2000 exampleEvent (Some exampleMessage) ''bot-id'') (Some ''hello''),
      Log LogError ''webhook error: HTTP 503'']"
  by code_simp

section \<open>The webhook subscription\<close>

lemma register_reuses:
  "st_listWebhooks env = Inr items \<Longrightarrow>
   find (\<lambda>wh. wh_targetUrl wh = url \<and> wh_resource wh = ''messages'') items = Some existing \<Longrightarrow>
   registerWebhook url env =
     (Some (wh_id existing),
      [ListWebhooks, Log LogInfo (''using existing webhook: '' @ wh_id existing)])"
  by (simp add: registerWebhook_def)

lemma register_creates:
  "st_listWebhooks env = Inr items \<Longrightarrow>
   find (\<lambda>wh. wh_targetUrl wh = url \<and> wh_resource wh = ''messages'') items = None \<Longrightarrow>
   st_createWebhook env = Inr webhook \<Longrightarrow>
   registerWebhook url env =
     (Some (wh_id webhook),
      [ListWebhooks, CreateWebhook url, Log LogInfo (''created webhook: '' @ wh_id webhook)])"
  by (simp add: registerWebhook_def)

lemma shutdown_deletes_recorded:
  "mon_active m \<Longrightarrow> mon_webhookId m = Some wid \<Longrightarrow> wid \<noteq> [] \<Longrightarrow>
   DeleteWebhook wid \<in> set (shutdown m deleted)"
  by (simp add: shutdown_def)

lemma shutdown_without_id:
  "mon_webhookId m = None \<Longrightarrow> DeleteWebhook wid \<notin> set (shutdown m deleted)"
  by (auto simp: shutdown_def)

lemma shutdown_tolerates_delete_failure:
  "mon_active m \<Longrightarrow> mon_server m \<Longrightarrow> mon_webhookId m = Some wid \<Longrightarrow> wid \<noteq> [] \<Longrightarrow>
   shutdown m (Some e) =
     Log LogInfo ''shutting down webex monitor'' #
     (if mon_pollingInterval m then [ClearInterval, Log LogInfo ''polling stopped''] else []) @
     [DeleteWebhook wid, Log LogWarn (''failed to delete webhook: '' @ errorText e),
      CloseServer, Log LogInfo ''webhook server stopped'']"
  by (simp add: shutdown_def)

text \<open>
  Claim C4: at shutdown the subscription is deleted if and only if this process
  created it; a subscription that existed at startup and was reused is not deleted;
  a failed deletion is tolerated. \<open>shutdown\<close> deletes whatever id startup recorded
  (\<open>shutdown_deletes_recorded\<close>), and startup records the id of a reused subscription
  as it records the id of a created one (\<open>register_reuses\<close>, \<open>register_creates\<close>). A
  startup that finds the subscription \<open>wh-old\<close> creates none, and its shutdown
  deletes \<open>wh-old\<close>. The failed deletion is tolerated as claimed
  (\<open>shutdown_tolerates_delete_failure\<close>).
\<close>

theorem shutdown_deletes_reused_webhook:
  "monitorWebexProvider (Some exampleConfig) exampleStartup =
     (\<lparr> mon_mode = ''both'', mon_active = True, mon_server = True,
        mon_webhookId = Some ''wh-old'', mon_pollingInterval = True \<rparr>,
      [Listen, ListWebhooks, Log LogInfo ''using existing webhook: wh-old'', StartPolling]) \<and>
   shutdown (fst (monitorWebexProvider (Some exampleConfig) exampleStartup)) None =
     [Log LogInfo ''shutting down webex monitor'', ClearInterval, Log LogInfo ''polling stopped'',
      DeleteWebhook ''wh-old'', Log LogInfo ''deleted webhook: wh-old'',
      CloseServer, Log LogInfo ''webhook server stopped'']"
  by code_simp

theorem shutdown_deletes_reused_webhook_witness:
  "DeleteWebhook ''wh-old'' \<in> set (shutdown (fst (monitorWebexProvider (Some exampleConfig) exampleStartup)) None) \<and>
   CreateWebhook ''https://bot.example.com/webex/webhook''
     \<notin> set (snd (monitorWebexProvider (Some exampleConfig) exampleStartup))"
  unfolding conjunct1 [OF shutdown_deletes_reused_webhook]
  by (simp add: shutdown_def)

text \<open>
  Claim C5, as the specification states it, says that a failed registration aborts
  startup in webhook-only mode. It does not: the monitor is active, with the server
  listening and two warnings logged.
\<close>

theorem registration_failure_counterexample:
  "monitorWebexProvider (Some (exampleConfig \<lparr> mode := Some ''webhook'' \<rparr>))
       (exampleStartup \<lparr> st_listWebhooks := Inl apiDown \<rparr>) =
     (\<lparr> mon_mode = ''webhook'', mon_active = True, mon_server = True,
        mon_webhookId = None, mon_pollingInterval = False \<rparr>,
      [Listen, ListWebhooks, Log LogWarn ''webhook registration failed: HTTP 503'',
       Log LogWarn ''you may need to manually configure webhook to https://bot.example.com/webex/webhook''])"
  by code_simp

lemma register_fails:
  assumes "st_listWebhooks env = Inl e \<or>
           (st_listWebhooks env = Inr items \<and>
            find (\<lambda>wh. wh_targetUrl wh = url \<and> wh_resource wh = ''messages'') items = None \<and>
            st_createWebhook env = Inl e)"
  shows "fst (registerWebhook url env) = None \<and>
         Log LogWarn (''webhook registration failed: '' @ errorText e)
           \<in> set (snd (registerWebhook url env))"
  using assms by (auto simp: registerWebhook_def)

text \<open>
  Claim C5, amended. When the configuration is enabled, a token resolves, the probe
  succeeds and the mode is \<open>webhook\<close> or \<open>both\<close>: a failed registration (listing the
  subscriptions fails, or none matches and creating one fails) is not fatal in either
  mode: two warnings are logged (the failure, and the hint to configure the webhook
  by hand), no subscription id is recorded, the server keeps listening and the
  monitor is active; polling starts exactly in mode \<open>both\<close>. What depends on the mode
  is an exception thrown by \<open>app.listen\<close>: in mode \<open>webhook\<close> startup ends with an
  error line and the empty shutdown, in mode \<open>both\<close> it goes on with polling only,
  with a warning.
\<close>

theorem registration_failure_not_fatal:
  assumes "enabled c"
    and "resolveWebexCredentials (st_envToken env) (Some c) \<noteq> None"
    and "probe_ok (probeWebex (Some c) (st_envToken env) (st_getMe env))"
    and "probe_botInfo (probeWebex (Some c) (st_envToken env) (st_getMe env)) \<noteq> None"
    and "orString (mode c) ''webhook'' = m"
    and "m = ''webhook'' \<or> m = ''both''"
  shows "(st_listen env = None \<and> st_listWebhooks env = Inl e \<longrightarrow>
            monitorWebexProvider (Some c) env =
              (\<lparr> mon_mode = m, mon_active = True, mon_server = True, mon_webhookId = None,
                 mon_pollingInterval = (m = ''both'') \<rparr>,
               [Listen, ListWebhooks,
                Log LogWarn (''webhook registration failed: '' @ errorText e),
                Log LogWarn (''you may need to manually configure webhook to '' @ webhookUrlOf c)]
               @ (if m = ''both'' then [StartPolling] else []))) \<and>
         (st_listen env = None \<and> st_listWebhooks env = Inr items \<and>
          find (\<lambda>wh. wh_targetUrl wh = webhookUrlOf c \<and> wh_resource wh = ''messages'') items = None \<and>
          st_createWebhook env = Inl e \<longrightarrow>
            monitorWebexProvider (Some c) env =
              (\<lparr> mon_mode = m, mon_active = True, mon_server = True, mon_webhookId = None,
                 mon_pollingInterval = (m = ''both'') \<rparr>,
               [Listen, ListWebhooks, CreateWebhook (webhookUrlOf c),
                Log LogWarn (''webhook registration failed: '' @ errorText e),
                Log LogWarn (''you may need to manually configure webhook to '' @ webhookUrlOf c)]
               @ (if m = ''both'' then [StartPolling] else []))) \<and>
         (st_listen env = Some e' \<and> m = ''webhook'' \<longrightarrow>
            monitorWebexProvider (Some c) env =
              (inactive m, [Log LogError (''failed to start webhook server: '' @ errorText e')])) \<and>
         (st_listen env = Some e' \<and> m = ''both'' \<longrightarrow>
            monitorWebexProvider (Some c) env =
              (\<lparr> mon_mode = m, mon_active = True, mon_server = False, mon_webhookId = None,
                 mon_pollingInterval = True \<rparr>,
               [Log LogError (''failed to start webhook server: '' @ errorText e'),
                Log LogWarn ''continuing with polling mode only'', StartPolling]))"
proof -
  obtain credentials info where
    ok: "resolveWebexCredentials (st_envToken env) (Some c) = Some credentials"
      "probe_botInfo (probeWebex (Some c) (st_envToken env) (st_getMe env)) = Some info"
    using assms(2,4) by blast
  note start = assms(1,3,5,6) ok
  have a: "st_listen env = None \<Longrightarrow>
      monitorWebexProvider (Some c) env =
        (case registerWebhook (webhookUrlOf c) env of
           (wid, registration) \<Rightarrow>
             (\<lparr> mon_mode = m, mon_active = True, mon_server = True, mon_webhookId = wid,
                mon_pollingInterval = (m = ''both'') \<rparr>,
              Listen # registration @ (if m = ''both'' then [StartPolling] else [])))"
    using start by (auto simp: monitorWebexProvider_def Let_def)
  have listFails: "st_listWebhooks env = Inl e \<Longrightarrow>
      registerWebhook (webhookUrlOf c) env =
        (None, [ListWebhooks,
                Log LogWarn (''webhook registration failed: '' @ errorText e),
                Log LogWarn (''you may need to manually configure webhook to '' @ webhookUrlOf c)])"
    by (simp add: registerWebhook_def)
  have createFails: "st_listWebhooks env = Inr items \<Longrightarrow>
      find (\<lambda>wh. wh_targetUrl wh = webhookUrlOf c \<and> wh_resource wh = ''messages'') items = None \<Longrightarrow>
      st_createWebhook env = Inl e \<Longrightarrow>
      registerWebhook (webhookUrlOf c) env =
        (None, [ListWebhooks, CreateWebhook (webhookUrlOf c),
                Log LogWarn (''webhook registration failed: '' @ errorText e),
                Log LogWarn (''you may need to manually configure webhook to '' @ webhookUrlOf c)])"
    by (simp add: registerWebhook_def)
  have b: "st_listen env = Some e' \<Longrightarrow> m = ''webhook'' \<Longrightarrow>
      monitorWebexProvider (Some c) env =
        (inactive m, [Log LogError (''failed to start webhook server: '' @ errorText e')])"
    using start by (auto simp: monitorWebexProvider_def Let_def)
  have c: "st_listen env = Some e' \<Longrightarrow> m = ''both'' \<Longrightarrow>
      monitorWebexProvider (Some c) env =
        (\<lparr> mon_mode = m, mon_active = True, mon_server = False, mon_webhookId = None,
           mon_pollingInterval = True \<rparr>,
         [Log LogError (''failed to start webhook server: '' @ errorText e'),
          Log LogWarn ''continuing with polling mode only'', StartPolling])"
    using start by (auto simp: monitorWebexProvider_def Let_def)
  show ?thesis
  proof (intro conjI impI)
    assume "st_listen env = None \<and> st_listWebhooks env = Inl e"
    then show "monitorWebexProvider (Some c) env =
              (\<lparr> mon_mode = m, mon_active = True, mon_server = True, mon_webhookId = None,
                 mon_pollingInterval = (m = ''both'') \<rparr>,
               [Listen, ListWebhooks,
                Log LogWarn (''webhook registration failed: '' @ errorText e),
                Log LogWarn (''you may need to manually configure webhook to '' @ webhookUrlOf c)]
               @ (if m = ''both'' then [StartPolling] else []))"
      using a listFails by simp
  next
    assume "st_listen env = None \<and> st_listWebhooks env = Inr items \<and>
          find (\<lambda>wh. wh_targetUrl wh = webhookUrlOf c \<and> wh_resource wh = ''messages'') items = None \<and>
          st_createWebhook env = Inl e"
    then show "monitorWebexProvider (Some c) env =
              (\<lparr> mon_mode = m, mon_active = True, mon_server = True, mon_webhookId = None,
                 mon_pollingInterval = (m = ''both'') \<rparr>,
               [Listen, ListWebhooks, CreateWebhook (webhookUrlOf c),
                Log LogWarn (''webhook registration failed: '' @ errorText e),
                Log LogWarn (''you may need to manually configure webhook to '' @ webhookUrlOf c)]
               @ (if m = ''both'' then [StartPolling] else []))"
      using a createFails by simp
  next
    assume "st_listen env = Some e' \<and> m = ''webhook''"
    then show "monitorWebexProvider (Some c) env =
        (inactive m, [Log LogError (''failed to start webhook server: '' @ errorText e')])"
      using b by simp
  next
    assume "st_listen env = Some e' \<and> m = ''both''"
    then show "monitorWebexProvider (Some c) env =
              (\<lparr> mon_mode = m, mon_active = True, mon_server = False, mon_webhookId = None,
                 mon_pollingInterval = True \<rparr>,
               [Log LogError (''failed to start webhook server: '' @ errorText e'),
                Log LogWarn ''continuing with polling mode only'', StartPolling])"
      using c by simp
  qed
qed

theorem registration_failure_not_fatal_witness:
  "monitorWebexProvider (Some exampleConfig)
       (exampleStartup \<lparr> st_listWebhooks := Inr [], st_createWebhook := Inl apiDown \<rparr>) =
     (\<lparr> mon_mode = ''both'', mon_active = True, mon_server = True, mon_webhookId = None,
        mon_pollingInterval = True \<rparr>,
      [Listen, ListWebhooks, CreateWebhook ''https://bot.example.com/webex/webhook'',
       Log LogWarn ''webhook registration failed: HTTP 503'',
       Log LogWarn ''you may need to manually configure webhook to https://bot.example.com/webex/webhook'',
       StartPolling]) \<and>
   monitorWebexProvider (Some (exampleConfig \<lparr> mode := Some ''webhook'' \<rparr>))
       (exampleStartup \<lparr> st_listen := Some apiDown \<rparr>) =
     (inactive ''webhook'', [Log LogError ''failed to start webhook server: HTTP 503''])"
proof -
  let ?env = "exampleStartup \<lparr> st_listWebhooks := Inr [], st_createWebhook := Inl apiDown \<rparr>"
  let ?env' = "exampleStartup \<lparr> st_listen := Some apiDown \<rparr>"
  let ?c' = "exampleConfig \<lparr> mode := Some ''webhook'' \<rparr>"
  have c1: "enabled exampleConfig" and c1': "enabled ?c'"
    by (simp_all add: exampleConfig_def)
  have c2: "resolveWebexCredentials (st_envToken ?env) (Some exampleConfig) \<noteq> None"
    and c2': "resolveWebexCredentials (st_envToken ?env') (Some ?c') \<noteq> None"
    by (simp_all add: resolveWebexCredentials_def exampleStartup_def exampleConfig_def
        trimOpt_def trim_def isWhiteSpace_def truthy_def Let_def)
  have c3: "probe_ok (probeWebex (Some exampleConfig) (st_envToken ?env) (st_getMe ?env))"
    and c3': "probe_ok (probeWebex (Some ?c') (st_envToken ?env') (st_getMe ?env'))"
    and c4: "probe_botInfo (probeWebex (Some exampleConfig) (st_envToken ?env) (st_getMe ?env)) \<noteq> None"
    and c4': "probe_botInfo (probeWebex (Some ?c') (st_envToken ?env') (st_getMe ?env')) \<noteq> None"
    by (simp_all add: probeWebex_def probeToken_def exampleStartup_def exampleConfig_def
        trimOpt_def trim_def isWhiteSpace_def truthy_def orElse_def Let_def)
  have c5: "orString (mode exampleConfig) ''webhook'' = ''both''"
    and c5': "orString (mode ?c') ''webhook'' = ''webhook''"
    by (simp_all add: orString_def exampleConfig_def)
  have c6: "''both'' = ''webhook'' \<or> ''both'' = ''both''"
    and c6': "''webhook'' = ''webhook'' \<or> ''webhook'' = ''both''"
    by simp_all
  have url: "webhookUrlOf exampleConfig = ''https://bot.example.com/webex/webhook''"
    by (simp add: webhookUrlOf_def orString_def exampleConfig_def)
  from registration_failure_not_fatal [OF c1 c2 c3 c4 c5 c6, of apiDown "[]" apiDown]
    registration_failure_not_fatal [OF c1' c2' c3' c4' c5' c6', of apiDown "[]" apiDown]
  show ?thesis
    by (simp add: exampleStartup_def apiDown_def errorText_def url)
qed

section \<open>One room in one tick\<close>

lemma examine_Old_iff: "(examine ctx lt m = Old) = (msg_created m \<le> lt)"
  by (simp add: examine_def Let_def)

lemma examine_Own_iff:
  "(examine ctx lt m = Own) = (lt < msg_created m \<and> msg_personEmail m = ctx_botEmail ctx)"
  by (auto simp: examine_def Let_def)

lemma examine_Gated_iff:
  "(examine ctx lt m = Gated) =
     (lt < msg_created m \<and> msg_personEmail m \<noteq> ctx_botEmail ctx \<and>
      \<not> shouldProcessWebexMessage
          (parseWebexWebhookEvent 0 (eventOfMessage m) (Some m) (ctx_botId ctx))
          (requireMentionInGroups (ctx_groupPolicy ctx)))"
  by (auto simp: examine_def Let_def)

lemma examine_Forward:
  "examine ctx lt m = Forward parsed t \<Longrightarrow>
     lt < msg_created m \<and> msg_personEmail m \<noteq> ctx_botEmail ctx \<and>
     parsed = parseWebexWebhookEvent 0 (eventOfMessage m) (Some m) (ctx_botId ctx) \<and>
     shouldProcessWebexMessage parsed (requireMentionInGroups (ctx_groupPolicy ctx)) \<and>
     t = cleanText parsed (ctx_botName ctx)"
  by (auto simp: examine_def Let_def split: if_splits)

lemma pollLoop_visits_prefix:
  "\<exists>rest. ms = map fst (pollLoop ctx room lt failing ms store) @ rest"
  by (induction ms arbitrary: store) (auto simp: Let_def split: verdict.splits option.splits)

lemma pollLoop_visits_all:
  "\<forall>m\<in>set ms. failing (msg_id m) = None \<Longrightarrow>
   map fst (pollLoop ctx room lt failing ms store) = ms"
  by (induction ms arbitrary: store) (auto simp: Let_def split: verdict.splits option.splits)

lemma pollLoop_outcomes:
  "(m, out, after) \<in> set (pollLoop ctx room lt failing ms store) \<Longrightarrow>
   (msg_created m \<le> lt \<longrightarrow> out = SkippedOld) \<and>
   (lt < msg_created m \<longrightarrow> out \<noteq> SkippedOld) \<and>
   (out = SkippedOwn \<longrightarrow> msg_personEmail m = ctx_botEmail ctx) \<and>
   (out = SkippedGate \<longrightarrow>
      \<not> shouldProcessWebexMessage
          (parseWebexWebhookEvent 0 (eventOfMessage m) (Some m) (ctx_botId ctx))
          (requireMentionInGroups (ctx_groupPolicy ctx))) \<and>
   (out = SkippedOwn \<or> out = SkippedGate \<or> (\<exists>t. out = Dispatched t) \<longrightarrow>
      after room = Some (max lt (msg_created m)))"
proof (induction ms arbitrary: store)
  case Nil
  then show ?case by simp
next
  case (Cons a ms)
  show ?case
  proof (cases "examine ctx lt a")
    case Old
    with Cons show ?thesis
      using examine_Old_iff [of ctx lt a] by auto
  next
    case Own
    with Cons show ?thesis
      using examine_Old_iff [of ctx lt a] examine_Own_iff [of ctx lt a]
      by (auto simp: Let_def advance_def)
  next
    case Gated
    with Cons show ?thesis
      using examine_Old_iff [of ctx lt a] examine_Gated_iff [of ctx lt a]
      by (auto simp: Let_def advance_def)
  next
    case (Forward parsed t)
    with Cons show ?thesis
      using examine_Old_iff [of ctx lt a]
      by (auto simp: Let_def advance_def split: option.splits)
  qed
qed

lemma newestFirst_rev_sorted:
  "newestFirst items \<Longrightarrow> sorted (map msg_created (rev items))"
  by (simp add: newestFirst_def rev_map sorted_wrt_rev sorted_wrt_map)

lemma pollLoop_sorted:
  assumes "sorted (map msg_created ms)"
  shows "sorted (map (msg_created \<circ> fst) (pollLoop ctx room lt failing ms store))"
proof -
  obtain rest where r: "ms = map fst (pollLoop ctx room lt failing ms store) @ rest"
    using pollLoop_visits_prefix by blast
  have "sorted (map msg_created (map fst (pollLoop ctx room lt failing ms store) @ rest))"
    using assms r by simp
  then show ?thesis
    by (simp add: sorted_append comp_def)
qed

lemma finalStore_Cons:
  "finalStore store ((m, out, after) # tr) = finalStore after tr"
  by (cases tr) (auto simp: finalStore_def)

lemma pollLoop_final_covers:
  assumes "sorted (map msg_created ms)"
    and "\<forall>m\<in>set ms. failing (msg_id m) = None"
    and "0 \<le> lt"
    and "lt \<le> lastTimeOf ctx store room"
    and "\<forall>m\<in>set ms. lt < msg_created m \<longrightarrow> lastTimeOf ctx store room \<le> msg_created m"
  shows "lastTimeOf ctx store room
           \<le> lastTimeOf ctx (finalStore store (pollLoop ctx room lt failing ms store)) room \<and>
         (\<forall>m\<in>set ms. msg_created m
           \<le> lastTimeOf ctx (finalStore store (pollLoop ctx room lt failing ms store)) room)"
  using assms
proof (induction ms arbitrary: store)
  case Nil
  then show ?case by (simp add: finalStore_def)
next
  case (Cons a ms)
  let ?L = "\<lambda>s. lastTimeOf ctx s room"
  have srt: "sorted (map msg_created ms)" and nf: "\<forall>m\<in>set ms. failing (msg_id m) = None"
    and fa: "failing (msg_id a) = None"
    using Cons.prems by simp_all
  show ?case
  proof (cases "msg_created a \<le> lt")
    case True
    then have ex: "examine ctx lt a = Old" by (simp add: examine_Old_iff)
    have inv: "\<forall>m\<in>set ms. lt < msg_created m \<longrightarrow> ?L store \<le> msg_created m"
      using Cons.prems(5) by simp
    from Cons.IH [OF srt nf Cons.prems(3) Cons.prems(4) inv]
    have ih: "?L store \<le> ?L (finalStore store (pollLoop ctx room lt failing ms store))"
      "\<forall>m\<in>set ms. msg_created m \<le> ?L (finalStore store (pollLoop ctx room lt failing ms store))"
      by simp_all
    have fin: "finalStore store (pollLoop ctx room lt failing (a # ms) store)
                 = finalStore store (pollLoop ctx room lt failing ms store)"
      using ex by (simp add: finalStore_Cons)
    show ?thesis
      unfolding fin using ih True Cons.prems(4) by auto
  next
    case False
    then have new: "lt < msg_created a" by simp
    define store' where "store' = advance store room lt (msg_created a)"
    have L': "?L store' = msg_created a"
      using new Cons.prems(3) by (simp add: store'_def advance_def lastTimeOf_def max_def)
    have notOld: "examine ctx lt a \<noteq> Old"
      using new by (simp add: examine_Old_iff)
    have fin: "finalStore store (pollLoop ctx room lt failing (a # ms) store)
                 = finalStore store' (pollLoop ctx room lt failing ms store')"
      using notOld fa
      by (cases "examine ctx lt a") (simp_all add: Let_def finalStore_Cons store'_def)
    have inv1: "lt \<le> ?L store'" using L' new by simp
    have inv2: "\<forall>m\<in>set ms. lt < msg_created m \<longrightarrow> ?L store' \<le> msg_created m"
      using Cons.prems(1) L' by simp
    from Cons.IH [OF srt nf Cons.prems(3) inv1 inv2]
    have ih: "?L store' \<le> ?L (finalStore store' (pollLoop ctx room lt failing ms store'))"
      "\<forall>m\<in>set ms. msg_created m \<le> ?L (finalStore store' (pollLoop ctx room lt failing ms store'))"
      by simp_all
    have "?L store \<le> msg_created a"
      using Cons.prems(5) new by simp
    then show ?thesis
      unfolding fin using ih L' by auto
  qed
qed

text \<open>
  Claim C3. Within one tick and one room: the messages are walked in the reverse of
  the fetched order, which is oldest first for the newest-first list of the API;
  a message created at or before the watermark read at the start of the room is
  skipped without dispatch; and for every other message that is skipped as the bot's
  own, rejected by the gate, or dispatched, the room's entry is set to the maximum
  of that watermark and the message's time. So when no dispatch throws (and time
  stamps are not negative), no fetched message is newer than the watermark the tick
  leaves: none is reconsidered by a later tick.
\<close>

theorem poll_room_order_and_watermark:
  "(\<exists>rest. rev (orEmpty items) = map fst (pollRoom ctx room failing items store) @ rest) \<and>
   ((\<forall>m\<in>set (orEmpty items). failing (msg_id m) = None) \<longrightarrow>
      map fst (pollRoom ctx room failing items store) = rev (orEmpty items)) \<and>
   (newestFirst (orEmpty items) \<longrightarrow>
      sorted (map (msg_created \<circ> fst) (pollRoom ctx room failing items store))) \<and>
   (\<forall>(m, out, after) \<in> set (pollRoom ctx room failing items store).
      (msg_created m \<le> lastTimeOf ctx store room \<longrightarrow> out = SkippedOld) \<and>
      (lastTimeOf ctx store room < msg_created m \<longrightarrow> out \<noteq> SkippedOld) \<and>
      (out = SkippedOwn \<longrightarrow> msg_personEmail m = ctx_botEmail ctx) \<and>
      (out = SkippedGate \<longrightarrow>
         \<not> shouldProcessWebexMessage
             (parseWebexWebhookEvent 0 (eventOfMessage m) (Some m) (ctx_botId ctx))
             (requireMentionInGroups (ctx_groupPolicy ctx))) \<and>
      (out = SkippedOwn \<or> out = SkippedGate \<or> (\<exists>t. out = Dispatched t) \<longrightarrow>
         after room = Some (max (lastTimeOf ctx store room) (msg_created m)))) \<and>
   (newestFirst (orEmpty items) \<and> (\<forall>m\<in>set (orEmpty items). failing (msg_id m) = None) \<and>
    0 \<le> lastTimeOf ctx store room \<longrightarrow>
      (\<forall>m\<in>set (orEmpty items).
         msg_created m \<le> lastTimeOf ctx (finalStore store (pollRoom ctx room failing items store)) room))"
proof (intro conjI impI)
  show "\<exists>rest. rev (orEmpty items) = map fst (pollRoom ctx room failing items store) @ rest"
    unfolding pollRoom_def by (rule pollLoop_visits_prefix)
next
  assume "\<forall>m\<in>set (orEmpty items). failing (msg_id m) = None"
  then show "map fst (pollRoom ctx room failing items store) = rev (orEmpty items)"
    unfolding pollRoom_def by (simp add: pollLoop_visits_all)
next
  assume "newestFirst (orEmpty items)"
  then show "sorted (map (msg_created \<circ> fst) (pollRoom ctx room failing items store))"
    unfolding pollRoom_def by (intro pollLoop_sorted newestFirst_rev_sorted)
next
  show "\<forall>(m, out, after) \<in> set (pollRoom ctx room failing items store).
      (msg_created m \<le> lastTimeOf ctx store room \<longrightarrow> out = SkippedOld) \<and>
      (lastTimeOf ctx store room < msg_created m \<longrightarrow> out \<noteq> SkippedOld) \<and>
      (out = SkippedOwn \<longrightarrow> msg_personEmail m = ctx_botEmail ctx) \<and>
      (out = SkippedGate \<longrightarrow>
         \<not> shouldProcessWebexMessage
             (parseWebexWebhookEvent 0 (eventOfMessage m) (Some m) (ctx_botId ctx))
             (requireMentionInGroups (ctx_groupPolicy ctx))) \<and>
      (out = SkippedOwn \<or> out = SkippedGate \<or> (\<exists>t. out = Dispatched t) \<longrightarrow>
         after room = Some (max (lastTimeOf ctx store room) (msg_created m)))"
    unfolding pollRoom_def using pollLoop_outcomes by fast
next
  assume h: "newestFirst (orEmpty items) \<and> (\<forall>m\<in>set (orEmpty items). failing (msg_id m) = None) \<and>
    0 \<le> lastTimeOf ctx store room"
  have "\<forall>m\<in>set (rev (orEmpty items)). msg_created m
           \<le> lastTimeOf ctx (finalStore store
                (pollLoop ctx room (lastTimeOf ctx store room) failing (rev (orEmpty items)) store)) room"
    using pollLoop_final_covers [of "rev (orEmpty items)" failing "lastTimeOf ctx store room" ctx store room]
      h newestFirst_rev_sorted [of "orEmpty items"]
    by auto
  then show "\<forall>m\<in>set (orEmpty items).
         msg_created m \<le> lastTimeOf ctx (finalStore store (pollRoom ctx room failing items store)) room"
    unfolding pollRoom_def by simp
qed

theorem poll_room_order_and_watermark_witness:
  "map (fst \<circ> snd) (pollRoom exampleCtx ''room-1'' (\<lambda>i. None) (Some exampleItems) Map.empty)
     = [SkippedOld, Dispatched (Some ''hello''), SkippedGate, SkippedOwn] \<and>
   map fst (pollRoom exampleCtx ''room-1'' (\<lambda>i. None) (Some exampleItems) Map.empty)
     = rev exampleItems \<and>
   sorted (map (msg_created \<circ> fst)
     (pollRoom exampleCtx ''room-1'' (\<lambda>i. None) (Some exampleItems) Map.empty)) \<and>
   130 \<le> lastTimeOf exampleCtx
     (finalStore Map.empty (pollRoom exampleCtx ''room-1'' (\<lambda>i. None) (Some exampleItems) Map.empty))
     ''room-1''"
proof -
  have outcomes: "map (fst \<circ> snd) (pollRoom exampleCtx ''room-1'' (\<lambda>i. None) (Some exampleItems) Map.empty)
     = [SkippedOld, Dispatched (Some ''hello''), SkippedGate, SkippedOwn]"
    by code_simp
  have nf: "newestFirst (orEmpty (Some exampleItems))"
    by code_simp
  have ok: "\<forall>m\<in>set (orEmpty (Some exampleItems)). (\<lambda>i. None) (msg_id m) = (None :: js_error option)"
    by simp
  have pos: "0 \<le> lastTimeOf exampleCtx Map.empty ''room-1''"
    by (simp add: lastTimeOf_def exampleCtx_def)
  have last: "(directMessage ''m3'' 130) \<lparr> msg_personEmail := ''bot@webex.bot'' \<rparr>
                \<in> set (orEmpty (Some exampleItems))"
    by (simp add: orEmpty_def exampleItems_def)
  from poll_room_order_and_watermark
         [of "Some exampleItems" exampleCtx "''room-1''" "\<lambda>i. None" Map.empty]
       outcomes nf ok pos last
  show ?thesis
    by (auto simp: orEmpty_def directMessage_def)
qed


section \<open>Ticks in sequence and ticks that overlap\<close>

text \<open>
  A tick that walks a room alone, on the newest-first list of the API, does not move
  the room's watermark back, whether or not a dispatch throws.
\<close>

lemma finalStore_Nil: "finalStore store [] = store"
  by (simp add: finalStore_def)

lemma pollLoop_monotone:
  assumes "sorted (map msg_created ms)"
    and "0 \<le> lt"
    and "lt \<le> lastTimeOf ctx store room"
    and "\<forall>m\<in>set ms. lt < msg_created m \<longrightarrow> lastTimeOf ctx store room \<le> msg_created m"
  shows "lastTimeOf ctx store room
           \<le> lastTimeOf ctx (finalStore store (pollLoop ctx room lt failing ms store)) room"
  using assms
proof (induction ms arbitrary: store)
  case Nil
  then show ?case by (simp add: finalStore_def)
next
  case (Cons a ms)
  let ?L = "\<lambda>s. lastTimeOf ctx s room"
  have srt: "sorted (map msg_created ms)"
    using Cons.prems by simp
  show ?case
  proof (cases "msg_created a \<le> lt")
    case True
    then have ex: "examine ctx lt a = Old" by (simp add: examine_Old_iff)
    have inv: "\<forall>m\<in>set ms. lt < msg_created m \<longrightarrow> ?L store \<le> msg_created m"
      using Cons.prems(4) by simp
    from Cons.IH [OF srt Cons.prems(2) Cons.prems(3) inv] ex
    show ?thesis by (simp add: finalStore_Cons)
  next
    case False
    then have new: "lt < msg_created a" by simp
    define store' where "store' = advance store room lt (msg_created a)"
    have L': "?L store' = msg_created a"
      using new Cons.prems(2) by (simp add: store'_def advance_def lastTimeOf_def max_def)
    have notOld: "examine ctx lt a \<noteq> Old"
      using new by (simp add: examine_Old_iff)
    have inv1: "lt \<le> ?L store'" using L' new by simp
    have inv2: "\<forall>m\<in>set ms. lt < msg_created m \<longrightarrow> ?L store' \<le> msg_created m"
      using Cons.prems(1) L' by simp
    have ih: "?L store' \<le> ?L (finalStore store' (pollLoop ctx room lt failing ms store'))"
      by (rule Cons.IH [OF srt Cons.prems(2) inv1 inv2])
    have here: "?L store \<le> ?L store'"
      using Cons.prems(4) new L' by simp
    have fin: "finalStore store (pollLoop ctx room lt failing (a # ms) store) = store \<or>
               finalStore store (pollLoop ctx room lt failing (a # ms) store)
                 = finalStore store' (pollLoop ctx room lt failing ms store')"
    proof (cases "examine ctx lt a")
      case (Forward parsed t)
      then show ?thesis
        by (cases "failing (msg_id a)")
          (simp_all add: Let_def finalStore_Cons finalStore_Nil store'_def)
    qed (use notOld in \<open>simp_all add: Let_def finalStore_Cons store'_def\<close>)
    then show ?thesis
      using ih here by auto
  qed
qed

lemma tick_alone_monotone:
  assumes "newestFirst (orEmpty items)" and "0 \<le> lastTimeOf ctx store room"
  shows "lastTimeOf ctx store room
           \<le> lastTimeOf ctx (finalStore store (pollRoom ctx room failing items store)) room"
  unfolding pollRoom_def
  using assms by (intro pollLoop_monotone newestFirst_rev_sorted) auto

text \<open>
  The tick of the step semantics, run alone on a room and answered by the
  dispatcher, leaves the watermarks of \<open>pollRoom\<close>.
\<close>

lemma run_Cons: "run ctx state (a # as) = run ctx (step ctx state a) as"
  by (simp add: run_def)

lemma run_Nil: "run ctx state [] = state"
  by (simp add: run_def)

lemma tick_alone_refines_pollLoop:
  "fst (run ctx (case messageLoop ctx room lt rooms ms store of
                   (store', t, effects) \<Rightarrow> (store', [t], sofar @ effects))
          (map (\<lambda>answer. Resume 0 (DispatchDone answer)) (dispatchAnswers ctx lt failing ms)))
     = finalStore store (pollLoop ctx room lt failing ms store)"
proof (induction ms arbitrary: store sofar)
  case Nil
  then show ?case by (simp add: run_Nil finalStore_def)
next
  case (Cons m ms)
  show ?case
  proof (cases "examine ctx lt m")
    case Old
    then show ?thesis using Cons.IH [where store = store and sofar = sofar] by (simp add: finalStore_Cons)
  next
    case Own
    then show ?thesis
      using Cons.IH [where store = "advance store room lt (msg_created m)" and sofar = sofar]
      by (simp add: finalStore_Cons Let_def)
  next
    case Gated
    then show ?thesis
      using Cons.IH [where store = "advance store room lt (msg_created m)" and sofar = sofar]
      by (simp add: finalStore_Cons Let_def)
  next
    case (Forward parsed t)
    show ?thesis
    proof (cases "failing (msg_id m)")
      case None
      then show ?thesis
        using Forward Cons.IH [where store = "advance store room lt (msg_created m)" and sofar = "sofar @ [Dispatch parsed t]"]
        by (simp add: finalStore_Cons Let_def run_Cons split: prod.splits)
    next
      case (Some e)
      then show ?thesis
        using Forward by (simp add: finalStore_def run_Cons run_Nil)
    qed
  qed
qed

lemma tick_alone_refines_pollRoom:
  "fst (run ctx (store, [AwaitMessages room (lastTimeOf ctx store room) rooms], sofar)
          (Resume 0 (Messages (Inr items)) #
           map (\<lambda>answer. Resume 0 (DispatchDone answer))
             (dispatchAnswers ctx (lastTimeOf ctx store room) failing (rev (orEmpty items)))))
     = finalStore store (pollRoom ctx room failing items store)"
  using tick_alone_refines_pollLoop
    [where ctx = ctx and room = room and lt = "lastTimeOf ctx store room" and rooms = rooms
       and ms = "rev (orEmpty items)" and store = store and sofar = sofar and failing = failing]
  by (simp add: run_Cons pollRoom_def split: prod.splits)

text \<open>
  Claim C2: the watermark of a room never decreases over any sequence of polling
  ticks, also when two ticks overlap, and after both the entry is the maximum
  \<open>createdAt\<close> either tick saw. It holds for ticks that run one after the other
  (\<open>tick_alone_monotone\<close>). A tick reads the entry once, before it fetches the
  messages, and writes \<open>Math.max\<close> of that reading and the message time after each
  message, so in the schedule \<open>overlap\<close> the entry of the room is 105 when the second
  tick has finished and 101 once the first tick has finished: it decreased, it is
  less than the 105 the second tick saw, message m1 was dispatched twice, and the
  next tick will take m2 as new again.
\<close>

theorem overlapping_ticks_lose_watermark:
  "(case run exampleCtx (Map.empty, [], []) (take 8 overlap) of
      (store, ticks, sofar) \<Rightarrow>
        store ''room-1'' = Some 105 \<and>
        ticks = [AwaitDispatch ''room-1'' 100 101 [] [], Finished]) \<and>
   (case run exampleCtx (Map.empty, [], []) overlap of
      (store, ticks, sofar) \<Rightarrow>
        store ''room-1'' = Some 101 \<and>
        ticks = [Finished, Finished] \<and>
        map (\<lambda>effect. case effect of Dispatch parsed t \<Rightarrow> messageId parsed | _ \<Rightarrow> [])
          sofar = [''m1'', ''m1'', ''m2''] \<and>
        examine exampleCtx (lastTimeOf exampleCtx store ''room-1'') (directMessage ''m2'' 105)
          \<noteq> Old)"
  by code_simp

end
